theory Spec2Isabelle
  imports Complex_Main
begin

section \<open>Exceptions\<close>

text \<open>
  The Python exceptions the modelled code can raise. \<open>OSError\<close> stands for every failure
  of \<open>open\<close> (FileNotFoundError, PermissionError, ...); the specification calls it
  IOFailure. \<open>ValueError\<close> is what the specification calls ConfigurationError where it is
  raised by an explicit \<open>raise ValueError\<close>.
\<close>

datatype error = AttributeError | ValueError | OSError | AssertionError | KeyError | TypeError

section \<open>Numeric values of the SWAG callback\<close>

text \<open>
  \<open>self.mean\<close> and \<open>self.moments\<close> start as lists of Python floats (\<open>2000*[0.]\<close>);
  \<open>self.model.get_weights()\<close> returns numpy arrays. A weight array is modelled by its
  data, a list of numbers, so arrays are one-dimensional and the shape is the length.
  Numbers are real numbers: the rounding of floating-point arithmetic is not modelled.
\<close>

type_synonym ndarray = "real list"

datatype tensor = PyFloat real | NdArray ndarray

text \<open>A unary elementwise operation (\<open>n * t\<close>, \<open>t / n\<close>, \<open>t ** 2\<close>).\<close>

fun tmap :: "(real \<Rightarrow> real) \<Rightarrow> tensor \<Rightarrow> tensor" where
  "tmap f (PyFloat a) = PyFloat (f a)"
| "tmap f (NdArray xs) = NdArray (map f xs)"

text \<open>
  A binary elementwise operation with numpy's broadcasting: a float combines with every
  element of an array; two arrays combine elementwise when their lengths agree, an array
  of length one is stretched to the other's length, and any other pair of lengths raises
  ValueError (operands could not be broadcast together).
\<close>

fun broadcast2 :: "(real \<Rightarrow> real \<Rightarrow> real) \<Rightarrow> tensor \<Rightarrow> tensor \<Rightarrow> error + tensor" where
  "broadcast2 f (PyFloat a) (PyFloat b) = Inr (PyFloat (f a b))"
| "broadcast2 f (PyFloat a) (NdArray ys) = Inr (NdArray (map (f a) ys))"
| "broadcast2 f (NdArray xs) (PyFloat b) = Inr (NdArray (map (\<lambda>x. f x b) xs))"
| "broadcast2 f (NdArray xs) (NdArray ys) =
     (if length xs = length ys then Inr (NdArray (map2 f xs ys))
      else if length xs = 1 then Inr (NdArray (map (f (hd xs)) ys))
      else if length ys = 1 then Inr (NdArray (map (\<lambda>x. f x (hd ys)) xs))
      else Inl ValueError)"

text \<open>The number of elements of a value, and the element an index reads under broadcasting.\<close>

fun tsize :: "tensor \<Rightarrow> nat" where
  "tsize (PyFloat a) = 1"
| "tsize (NdArray xs) = length xs"

fun elem_at :: "tensor \<Rightarrow> nat \<Rightarrow> real" where
  "elem_at (PyFloat a) j = a"
| "elem_at (NdArray xs) j = (if length xs = 1 then hd xs else xs ! j)"

text \<open>
  A list comprehension whose element expression can raise: the elements are computed in
  order and the first exception leaves the comprehension.
\<close>

fun comprehension :: "('a \<Rightarrow> error + 'b) \<Rightarrow> 'a list \<Rightarrow> error + 'b list" where
  "comprehension f [] = Inr []"
| "comprehension f (x # xs) =
     (case f x of
        Inl e \<Rightarrow> Inl e
      | Inr y \<Rightarrow> (case comprehension f xs of Inl e \<Rightarrow> Inl e | Inr ys \<Rightarrow> Inr (y # ys)))"

section \<open>The SWAG callback\<close>

record swag =
  mean :: "tensor list"
  moments :: "tensor list"
  rank :: int
  start :: int
  output_prefix :: string
  cols :: "tensor list list"

definition init_swag :: "string \<Rightarrow> int \<Rightarrow> int \<Rightarrow> swag" where
  "init_swag prefix start0 rank0 =
     \<lparr> mean = replicate 2000 (PyFloat 0),
       moments = replicate 2000 (PyFloat 0),
       rank = rank0,
       start = start0,
       output_prefix = prefix,
       cols = [] \<rparr>"

text \<open>\<open>((epoch-self.start)*prev + curr)/(epoch-self.start+1)\<close>\<close>

definition mean_elem :: "int \<Rightarrow> tensor \<times> ndarray \<Rightarrow> error + tensor" where
  "mean_elem n = (\<lambda>(prev, curr).
     case broadcast2 (+) (tmap (\<lambda>x. real_of_int n * x) prev) (NdArray curr) of
       Inl e \<Rightarrow> Inl e
     | Inr s \<Rightarrow> Inr (tmap (\<lambda>x. x / real_of_int (n + 1)) s))"

text \<open>\<open>((epoch-self.start)*prev + curr**2)/(epoch-self.start+1)\<close>; the middle component of
  the triple is the mean, which the expression does not use.\<close>

definition moment_elem :: "int \<Rightarrow> tensor \<times> tensor \<times> ndarray \<Rightarrow> error + tensor" where
  "moment_elem n = (\<lambda>(prev, m, curr).
     case broadcast2 (+) (tmap (\<lambda>x. real_of_int n * x) prev) (tmap (\<lambda>x. x ^ 2) (NdArray curr)) of
       Inl e \<Rightarrow> Inl e
     | Inr s \<Rightarrow> Inr (tmap (\<lambda>x. x / real_of_int (n + 1)) s))"

text \<open>\<open>curr-mean\<close>\<close>

definition col_elem :: "tensor \<times> ndarray \<Rightarrow> error + tensor" where
  "col_elem = (\<lambda>(m, curr). broadcast2 (-) (NdArray curr) m)"

text \<open>The second statement of \<open>on_epoch_end\<close>: \<open>if len(self.cols) > self.rank: self.cols = self.cols[1:]\<close>.\<close>

definition evict :: "swag \<Rightarrow> swag" where
  "evict st = (if int (length (cols st)) > rank st then st\<lparr>cols := tl (cols st)\<rparr> else st)"

text \<open>
  \<open>on_epoch_end\<close> with the snapshot \<open>ws\<close> that \<open>self.model.get_weights()\<close> returns during the
  call. The result is the exception raised, if any, and the state the call leaves: each
  attribute is assigned once its comprehension has been computed, so an exception in a
  later comprehension leaves the earlier assignments in place.
\<close>

definition on_epoch_end :: "swag \<Rightarrow> int \<Rightarrow> ndarray list \<Rightarrow> error option \<times> swag" where
  "on_epoch_end st epoch ws =
     (if epoch \<ge> start st then
        (case comprehension (mean_elem (epoch - start st)) (zip (mean st) ws) of
           Inl e \<Rightarrow> (Some e, st)
         | Inr m \<Rightarrow>
             let st1 = st\<lparr>mean := m\<rparr> in
             (case comprehension (moment_elem (epoch - start st1))
                     (zip (moments st1) (zip (mean st1) ws)) of
                Inl e \<Rightarrow> (Some e, st1)
              | Inr mo \<Rightarrow>
                  let st2 = st1\<lparr>moments := mo\<rparr> in
                  (case comprehension col_elem (zip (mean st2) ws) of
                     Inl e \<Rightarrow> (Some e, st2)
                   | Inr c \<Rightarrow> (None, evict (st2\<lparr>cols := cols st2 @ [c]\<rparr>)))))
      else (None, evict st))"

text \<open>
  A training run calls \<open>on_epoch_end\<close> once per epoch, each time with the weights of that
  epoch; an exception ends the run.
\<close>

fun run_epochs :: "swag \<Rightarrow> (int \<times> ndarray list) list \<Rightarrow> error option \<times> swag" where
  "run_epochs st [] = (None, st)"
| "run_epochs st ((epoch, ws) # rest) =
     (case on_epoch_end st epoch ws of
        (Some e, st') \<Rightarrow> (Some e, st')
      | (None, st') \<Rightarrow> run_epochs st' rest)"

text \<open>
  A value fits a weight array of \<open>n\<close> elements when combining the two needs no stretching
  of an array: it is a float, or an array of \<open>n\<close> elements. The weights of a model keep
  their shapes during training, so every value the callback holds fits the array it meets.
\<close>

definition fits :: "tensor \<Rightarrow> nat \<Rightarrow> bool" where
  "fits t n = (case t of PyFloat a \<Rightarrow> True | NdArray xs \<Rightarrow> length xs = n)"

text \<open>
  The number of elements of the result when a value combines with an array of \<open>n\<close>
  elements and the two can be combined: a float and an array of one element take the
  other's size.
\<close>

fun broadcast_size :: "tensor \<Rightarrow> nat \<Rightarrow> nat" where
  "broadcast_size (PyFloat a) n = n"
| "broadcast_size (NdArray xs) n = (if n = 1 then length xs else n)"

text \<open>\<open>diag = [moment - mean**2 for moment, mean in zip(self.moments, self.mean)]\<close>\<close>

definition diag_elem :: "tensor \<times> tensor \<Rightarrow> error + tensor" where
  "diag_elem = (\<lambda>(moment, m). broadcast2 (-) moment (tmap (\<lambda>x. x ^ 2) m))"

definition diag :: "swag \<Rightarrow> error + tensor list" where
  "diag st = comprehension diag_elem (zip (moments st) (mean st))"

section \<open>Files\<close>

text \<open>
  A JSON document, and a file's content: a JSON document or plain text (the empty file is
  \<open>Text []\<close>). How \<open>json.dump\<close> prints a number is not modelled.
\<close>

datatype json = JNull | JBool bool | JNum real | JStr string | JArr "json list"
  | JObj "(string \<times> json) list"

datatype content = Json json | Text string

text \<open>
  The file system: the regular files with their content, the directories that exist, and
  the files and directories the process may not write (a file among them cannot be opened
  for writing, and no file can be created in a directory among them). Paths are strings;
  the empty path names the working directory.
\<close>

record filesys =
  files :: "string \<rightharpoonup> content"
  dirs :: "string set"
  readonly :: "string set"

text \<open>\<open>s.split(sep)\<close> for a separator of one character.\<close>

fun split_on :: "char \<Rightarrow> string \<Rightarrow> string list" where
  "split_on sep [] = [[]]"
| "split_on sep (c # cs) =
     (if c = sep then [] # split_on sep cs
      else (case split_on sep cs of [] \<Rightarrow> [[c]] | y # ys \<Rightarrow> (c # y) # ys))"

text \<open>
  A \<open>pathlib.Path\<close> on a POSIX system: a root (none, one slash, or two slashes when the
  string starts with exactly two) and the parts between the slashes, without the empty
  ones and without \<open>.\<close>. So \<open>Path('m/')\<close> is \<open>Path('m')\<close>, and \<open>Path('')\<close> is the working
  directory, printed as \<open>.\<close>.
\<close>

type_synonym path = "string \<times> string list"

definition path_root :: "string \<Rightarrow> string" where
  "path_root s =
     (let n = length (takeWhile (\<lambda>c. c = CHR ''/'') s)
      in if n = 2 then ''//'' else if 0 < n then ''/'' else [])"

definition path_parts :: "string \<Rightarrow> string list" where
  "path_parts s = filter (\<lambda>c. c \<noteq> [] \<and> c \<noteq> ''.'') (split_on (CHR ''/'') s)"

definition Path :: "string \<Rightarrow> path" where
  "Path s = (path_root s, path_parts s)"

text \<open>\<open>'/'.join(parts)\<close>\<close>

fun join_slash :: "string list \<Rightarrow> string" where
  "join_slash [] = []"
| "join_slash [x] = x"
| "join_slash (x # y # zs) = x @ ''/'' @ join_slash (y # zs)"

text \<open>\<open>str(p)\<close>, which is also the name \<open>open(p)\<close> uses.\<close>

definition path_str :: "path \<Rightarrow> string" where
  "path_str p =
     (if fst p = [] \<and> snd p = [] then ''.'' else fst p @ join_slash (snd p))"

text \<open>\<open>p / name\<close> for a relative \<open>name\<close>: its parts are appended.\<close>

definition path_div :: "path \<Rightarrow> string \<Rightarrow> path" where
  "path_div p name = (fst p, snd p @ path_parts name)"

text \<open>
  \<open>os.path.dirname\<close>: the path up to and including the last slash, with trailing slashes
  removed unless it consists of slashes only.
\<close>

definition dirname :: "string \<Rightarrow> string" where
  "dirname p =
     (let head = rev (dropWhile (\<lambda>c. c \<noteq> CHR ''/'') (rev p))
      in if head \<noteq> [] \<and> \<not> list_all (\<lambda>c. c = CHR ''/'') head
         then rev (dropWhile (\<lambda>c. c = CHR ''/'') (rev head))
         else head)"

text \<open>
  Whether \<open>open(p, mode)\<close> succeeds for a writing mode (\<open>'w'\<close>, \<open>'w+'\<close>, \<open>'a'\<close>): \<open>p\<close> is not a
  directory; a file that exists is opened by its own permission; a file that does not
  exist is created, which needs its directory to exist and to be writable.
\<close>

definition can_open :: "filesys \<Rightarrow> string \<Rightarrow> bool" where
  "can_open fs p =
     (p \<notin> dirs fs \<and>
      (case files fs p of
         Some c \<Rightarrow> p \<notin> readonly fs
       | None \<Rightarrow> dirname p \<in> dirs fs \<and> dirname p \<notin> readonly fs))"

text \<open>
  What decides whether data written to an open file reaches the disk: the files to which
  no data can be written (no space is left, a quota is reached), and whether a printed
  document fits the buffer of a Python file object, so that no data is written before the
  file is closed. How large a printed document is is not modelled.
\<close>

record device =
  no_space :: "string set"
  in_buffer :: "json \<Rightarrow> bool"

text \<open>
  \<open>json.dump(obj, open(p, 'w+'))\<close> for an \<open>obj\<close> already computed. \<open>open\<close> creates or
  truncates the file. The code keeps no reference to the file object and never closes it:
  Python finalizes it when the statement is over, and an exception of that last flush is
  ignored. So where no data can be written, a document that fits the buffer is lost
  without an exception, and a larger one raises OSError from \<open>json.dump\<close> when the buffer
  is flushed; either way the file is left empty.
\<close>

definition json_dump :: "device \<Rightarrow> json \<Rightarrow> string \<Rightarrow> filesys \<Rightarrow> error option \<times> filesys" where
  "json_dump dev obj p fs =
     (if \<not> can_open fs p then (Some OSError, fs)
      else if p \<notin> no_space dev then (None, fs\<lparr>files := (files fs)(p \<mapsto> Json obj)\<rparr>)
      else if in_buffer dev obj then (None, fs\<lparr>files := (files fs)(p \<mapsto> Text [])\<rparr>)
      else (Some OSError, fs\<lparr>files := (files fs)(p \<mapsto> Text [])\<rparr>))"

text \<open>\<open>open(p, 'a').close()\<close>: creates the file empty when it does not exist and leaves an
  existing file as it is.\<close>

definition touch :: "string \<Rightarrow> filesys \<Rightarrow> error option \<times> filesys" where
  "touch p fs =
     (if can_open fs p then
        (None, case files fs p of
                 None \<Rightarrow> fs\<lparr>files := (files fs)(p \<mapsto> Text [])\<rparr>
               | Some c \<Rightarrow> fs)
      else (Some OSError, fs))"

section \<open>Saving the SWAG statistics\<close>

text \<open>\<open>p.tolist()\<close>: a numpy array has the method, a Python float does not.\<close>

fun tolist :: "tensor \<Rightarrow> error + json" where
  "tolist (PyFloat a) = Inl AttributeError"
| "tolist (NdArray xs) = Inr (JArr (map JNum xs))"

text \<open>\<open>[p.tolist() for p in ts]\<close>\<close>

definition tolist_all :: "tensor list \<Rightarrow> error + json" where
  "tolist_all ts = (case comprehension tolist ts of Inl e \<Rightarrow> Inl e | Inr js \<Rightarrow> Inr (JArr js))"

text \<open>\<open>[[p.tolist() for p in col] for col in self.cols]\<close>\<close>

definition tolist_cols :: "tensor list list \<Rightarrow> error + json" where
  "tolist_cols cs = (case comprehension tolist_all cs of Inl e \<Rightarrow> Inl e | Inr js \<Rightarrow> Inr (JArr js))"

text \<open>
  \<open>on_train_end\<close>, on a device \<open>dev\<close>. In each \<open>json.dump(obj, open(...))\<close> the document is
  computed before the file is opened, so an exception in \<open>tolist\<close> leaves that file
  untouched; the files written by the earlier statements stay.
\<close>

definition on_train_end :: "device \<Rightarrow> swag \<Rightarrow> filesys \<Rightarrow> error option \<times> filesys" where
  "on_train_end dev st fs =
     (case tolist_all (mean st) of
        Inl e \<Rightarrow> (Some e, fs)
      | Inr a \<Rightarrow>
         (case json_dump dev a (output_prefix st @ ''_mean.json'') fs of
            (Some e, fs1) \<Rightarrow> (Some e, fs1)
          | (None, fs1) \<Rightarrow>
             (case diag st of
                Inl e \<Rightarrow> (Some e, fs1)
              | Inr d \<Rightarrow>
                 (case tolist_all d of
                    Inl e \<Rightarrow> (Some e, fs1)
                  | Inr b \<Rightarrow>
                     (case json_dump dev b (output_prefix st @ ''_diag.json'') fs1 of
                        (Some e, fs2) \<Rightarrow> (Some e, fs2)
                      | (None, fs2) \<Rightarrow>
                         (case tolist_cols (cols st) of
                            Inl e \<Rightarrow> (Some e, fs2)
                          | Inr c \<Rightarrow> json_dump dev c (output_prefix st @ ''_cols.json'') fs2))))))"

section \<open>Sequencing statements that can raise\<close>

text \<open>
  A statement acts on a state and may raise; a block runs its statements in order and
  stops at the first exception, keeping the state reached.
\<close>

type_synonym 's stmt = "'s \<Rightarrow> error option \<times> 's"

fun block :: "'s stmt list \<Rightarrow> 's stmt" where
  "block [] s = (None, s)"
| "block (f # fs) s = (case f s of (Some e, s') \<Rightarrow> (Some e, s') | (None, s') \<Rightarrow> block fs s')"

section \<open>The step tracker (ConditionalRun)\<close>

text \<open>
  \<open>ConditionalRun\<close> is imported from \<open>bpnet.utils\<close>, which is not among the source files.
  Its operations below follow the specification's description of the step tracker.
\<close>

record tracker =
  cr_main_cmd :: string
  cr_cmd :: "string option"
  cr_output_dir :: string
  cr_force :: bool

text \<open>Modelled from the spec: the constructor \<open>ConditionalRun(main_cmd, cmd, output_dir, force)\<close>
  of \<open>bpnet.utils\<close>, which only records its configuration.\<close>

definition conditional_run :: "string \<Rightarrow> string option \<Rightarrow> string \<Rightarrow> bool \<Rightarrow> tracker" where
  "conditional_run main_cmd0 cmd0 dir force0 =
     \<lparr> cr_main_cmd = main_cmd0, cr_cmd = cmd0, cr_output_dir = dir, cr_force = force0 \<rparr>"

text \<open>Modelled from the spec: \<open>ConditionalRun.set_cmd\<close> of \<open>bpnet.utils\<close>: selects the step
  to query or mark next, without any effect on storage.\<close>

definition set_cmd :: "tracker \<Rightarrow> string \<Rightarrow> tracker" where
  "set_cmd cr name = cr\<lparr>cr_cmd := Some name\<rparr>"

text \<open>Modelled from the spec: the marker path of \<open>ConditionalRun\<close> (\<open>bpnet.utils\<close>),
  \<open><output_dir>/.<job_name>/<step_name>.done\<close>, a pure function of the job and the step.\<close>

definition marker_path :: "tracker \<Rightarrow> string" where
  "marker_path cr =
     cr_output_dir cr @ ''/.'' @ cr_main_cmd cr @ ''/''
       @ (case cr_cmd cr of None \<Rightarrow> ''None'' | Some name \<Rightarrow> name) @ ''.done''"

text \<open>Modelled from the spec: \<open>ConditionalRun.done\<close> of \<open>bpnet.utils\<close>: true iff the marker
  of the selected step exists and force was not requested; it reads storage only.\<close>

definition cr_done :: "tracker \<Rightarrow> filesys \<Rightarrow> bool" where
  "cr_done cr fs = (files fs (marker_path cr) \<noteq> None \<and> \<not> cr_force cr)"

text \<open>The directories above a path, nearest first.\<close>

function parents :: "string \<Rightarrow> string list" where
  "parents p = (if length (dirname p) < length p then dirname p # parents (dirname p) else [])"
  by pat_completeness auto
termination
  by (relation "measure length") auto

declare parents.simps [simp del]

text \<open>Modelled from the spec: \<open>ConditionalRun.write\<close> of \<open>bpnet.utils\<close>: creates the
  marker, an empty file, together with any missing parent directory; a marker that exists
  already is left alone; the creation fails with an IOFailure when the output directory is
  not writable.\<close>

definition cr_write :: "tracker \<Rightarrow> filesys stmt" where
  "cr_write cr fs =
     (if files fs (marker_path cr) \<noteq> None then (None, fs)
      else if cr_output_dir cr \<in> readonly fs then (Some OSError, fs)
      else (None, fs\<lparr>files := (files fs)(marker_path cr \<mapsto> Text []),
                      dirs := dirs fs \<union> set (parents (marker_path cr))\<rparr>))"

section \<open>The report pipeline\<close>

text \<open>
  What \<open>modisco_report_all\<close> calls and this development does not look into: reading the
  patterns of a modisco result file, loading the contribution file, and the report steps
  themselves, each named as in the source.
\<close>

record report_env =
  mr_patterns :: "string \<Rightarrow> filesys \<Rightarrow> error + string list"
  load_contribsf :: "string \<Rightarrow> filesys \<Rightarrow> error option"
  run_step :: "string \<Rightarrow> filesys stmt"

text \<open>\<open>read_json(modisco_dir / "modisco-run.kwargs.json")["contrib_file"]\<close>\<close>

definition read_contrib_file :: "path \<Rightarrow> filesys \<Rightarrow> error + json" where
  "read_contrib_file modisco_dir fs =
     (case files fs (path_str (path_div modisco_dir ''modisco-run.kwargs.json'')) of
        None \<Rightarrow> Inl OSError
      | Some (Text t) \<Rightarrow> Inl ValueError
      | Some (Json (JObj kv)) \<Rightarrow>
          (case map_of kv ''contrib_file'' of None \<Rightarrow> Inl KeyError | Some v \<Rightarrow> Inr v)
      | Some (Json j) \<Rightarrow> Inl TypeError)"

text \<open>
  The state of a run of the pipeline: the file system and the report steps executed so far,
  in order.
\<close>

type_synonym report_state = "filesys \<times> string list"

text \<open>\<open>if not cr.set_cmd(name).done(): <step>(...); cr.write()\<close>\<close>

definition cond_step :: "report_env \<Rightarrow> tracker \<Rightarrow> string \<Rightarrow> report_state stmt" where
  "cond_step env cr name = (\<lambda>(fs, trace).
     if \<not> cr_done (set_cmd cr name) fs then
       (case run_step env name fs of
          (Some e, fs1) \<Rightarrow> (Some e, (fs1, trace @ [name]))
        | (None, fs1) \<Rightarrow>
            (case cr_write (set_cmd cr name) fs1 of (r, fs2) \<Rightarrow> (r, (fs2, trace @ [name]))))
     else (None, (fs, trace)))"

text \<open>The contribution file is loaded only when one of the three steps that use it is pending.\<close>

definition load_if_pending :: "report_env \<Rightarrow> tracker \<Rightarrow> string \<Rightarrow> report_state stmt" where
  "load_if_pending env cr modisco_dir = (\<lambda>(fs, trace).
     if \<not> cr_done (set_cmd cr ''modisco_plot'') fs
        \<or> \<not> cr_done (set_cmd cr ''modisco_cluster_patterns'') fs
        \<or> \<not> cr_done (set_cmd cr ''modisco_enrich_patterns'') fs
     then (load_contribsf env modisco_dir fs, (fs, trace))
     else (None, (fs, trace)))"

text \<open>A statement on the file system, as a statement of the pipeline.\<close>

definition on_fs :: "filesys stmt \<Rightarrow> report_state stmt" where
  "on_fs f = (\<lambda>(fs, trace). case f fs of (r, fs1) \<Rightarrow> (r, (fs1, trace)))"

text \<open>
  \<open>modisco_report_all\<close>. Its first statement, \<open>modisco_dir = Path(modisco_dir)\<close>, is the
  \<open>let\<close> below: the files are named by \<open>/\<close> on the path, the modisco result by the
  f-string \<open>f"{modisco_dir}/modisco.h5"\<close>. \<open>trim_frac\<close> and \<open>n_jobs\<close> are only handed to the
  steps and are left out; what is printed is not modelled.
\<close>

definition modisco_report_all ::
    "report_env \<Rightarrow> string \<Rightarrow> bool \<Rightarrow> bool \<Rightarrow> filesys \<Rightarrow> error option \<times> report_state" where
  "modisco_report_all env modisco_dir0 scan_instances force fs =
     (let modisco_dir = Path modisco_dir0 in
      case read_contrib_file modisco_dir fs of
        Inl e \<Rightarrow> (Some e, (fs, []))
      | Inr contrib_scores \<Rightarrow>
         (case mr_patterns env (path_str modisco_dir @ ''/modisco.h5'') fs of
            Inl e \<Rightarrow> (Some e, (fs, []))
          | Inr all_patterns \<Rightarrow>
             if length all_patterns = 0 then
               block [on_fs (touch (path_str (path_div modisco_dir ''results.html''))),
                      on_fs (touch (path_str (path_div modisco_dir ''seqlets/scored_regions.bed'')))]
                 (fs, [])
             else
               let cr = conditional_run ''modisco_report_all'' None (path_str modisco_dir) force in
               block ([load_if_pending env cr (path_str modisco_dir),
                       cond_step env cr ''modisco_plot'',
                       cond_step env cr ''modisco_report'',
                       cond_step env cr ''modisco_table'',
                       cond_step env cr ''modisco_cluster_patterns'',
                       cond_step env cr ''modisco_enrich_patterns'']
                      @ (if scan_instances
                         then [cond_step env cr ''modisco_centroid_seqlet_matches'',
                               cond_step env cr ''cwm_scan'']
                         else [])
                      @ [cond_step env cr ''modisco2bed'']) (fs, [])))"

section \<open>Running modisco\<close>

text \<open>The process state \<open>bpnet_modisco_run\<close> acts on: the file system and \<open>os.environ\<close>.\<close>

record proc =
  pfs :: filesys
  environ :: "string \<rightharpoonup> string"

record run_args =
  contrib_file :: string
  output_dir :: string
  null_contrib_file :: "string option"
  premade :: string
  config :: "string option"
  override :: string
  contrib_wildcard :: string
  only_task_regions :: bool
  filter_npy :: "string option"
  exclude_chr :: string
  num_workers :: int
  gpu :: "int option"
  memfrac_gpu :: real
  overwrite :: bool

text \<open>
  What \<open>bpnet_modisco_run\<close> calls and this development does not look into: helpers of
  \<open>bpnet.utils\<close> and \<open>bpnet.cli.train\<close>, the gin library (\<open>gin_parse\<close> stands for
  \<open>gin.parse_config_files_and_bindings(_get_gin_files(premade, config), ...)\<close> and takes the
  premade name, the config, the number of the \<open>num_workers\<close> binding and the parts of
  \<open>override\<close>), \<open>os.path.abspath\<close>, the tasks stored in a contribution file, and
  \<open>run_rest\<close>, the part of the function after the computation of \<open>subset_tasks\<close> (loading
  the ranges, subsetting the samples, saving the subset file and calling \<open>modisco_run\<close>).
\<close>

record run_env =
  add_file_logging :: "string \<Rightarrow> proc stmt"
  create_tf_session :: "int \<Rightarrow> real \<Rightarrow> proc stmt"
  abspath :: "string \<Rightarrow> string"
  remove_exists :: "string \<Rightarrow> bool \<Rightarrow> proc stmt"
  gin_parse :: "string \<Rightarrow> string option \<Rightarrow> int \<Rightarrow> string list \<Rightarrow> proc stmt"
  log_gin_config :: "string \<Rightarrow> proc stmt"
  get_tasks :: "string \<Rightarrow> proc \<Rightarrow> error + string list"
  run_rest :: "run_args \<Rightarrow> string list \<Rightarrow> string set option \<Rightarrow> proc stmt"

text \<open>\<open>os.path.join(d, name)\<close> for a relative \<open>name\<close>.\<close>

definition path_join :: "string \<Rightarrow> string \<Rightarrow> string" where
  "path_join d name = (if d = [] \<or> last d = CHR ''/'' then d @ name else d @ ''/'' @ name)"

text \<open>\<open>str(x)\<close> of an optional path.\<close>

definition str_opt :: "string option \<Rightarrow> string" where
  "str_opt x = (case x of None \<Rightarrow> ''None'' | Some v \<Rightarrow> v)"

text \<open>A statement on the file system, as a statement on the process state.\<close>

definition in_fs :: "filesys stmt \<Rightarrow> proc stmt" where
  "in_fs f st = (case f (pfs st) of (r, fs1) \<Rightarrow> (r, st\<lparr>pfs := fs1\<rparr>))"

text \<open>\<open>write_json(obj, path)\<close> of \<open>concise.utils.helper\<close>: dumps the object to the file.\<close>

definition write_json :: "json \<Rightarrow> string \<Rightarrow> filesys stmt" where
  "write_json obj p fs =
     (if can_open fs p then (None, fs\<lparr>files := (files fs)(p \<mapsto> Json obj)\<rparr>)
      else (Some OSError, fs))"

text \<open>\<open>shutil.copyfile(src, dst)\<close>\<close>

definition copyfile :: "string \<Rightarrow> string \<Rightarrow> filesys stmt" where
  "copyfile src dst fs =
     (case files fs src of
        None \<Rightarrow> (Some OSError, fs)
      | Some c \<Rightarrow>
          if can_open fs dst then (None, fs\<lparr>files := (files fs)(dst \<mapsto> c)\<rparr>)
          else (Some OSError, fs))"

text \<open>The first statements: file logging, then the GPU session or the two environment variables.\<close>

definition setup_devices :: "run_env \<Rightarrow> run_args \<Rightarrow> proc stmt" where
  "setup_devices env a st =
     (case gpu a of
        Some g \<Rightarrow> create_tf_session env g (memfrac_gpu a) st
      | None \<Rightarrow> (None, st\<lparr>environ := (environ st)(''CUDA_VISIBLE_DEVICES'' \<mapsto> [],
                                                    ''MKL_THREADING_LAYER'' \<mapsto> ''GNU'')\<rparr>))"

text \<open>\<open>assert '/' in contrib_wildcard\<close>\<close>

definition assert_slash :: "run_args \<Rightarrow> proc stmt" where
  "assert_slash a st =
     (if CHR ''/'' \<in> set (contrib_wildcard a) then (None, st) else (Some AssertionError, st))"

text \<open>The paths of the output files, with \<open>filter_npy\<close> and \<open>config\<close> made absolute first.\<close>

definition abs_opt :: "run_env \<Rightarrow> string option \<Rightarrow> string option" where
  "abs_opt env x = (case x of None \<Rightarrow> None | Some v \<Rightarrow> Some (abspath env v))"

definition output_path :: "run_env \<Rightarrow> run_args \<Rightarrow> string" where
  "output_path env a = abspath env (path_join (output_dir a) ''modisco.h5'')"

definition output_filter_npy :: "run_env \<Rightarrow> run_args \<Rightarrow> string" where
  "output_filter_npy env a =
     abspath env (path_join (output_dir a) ''modisco-run.subset-contrib-file.npy'')"

definition kwargs_json_file :: "run_args \<Rightarrow> string" where
  "kwargs_json_file a = path_join (output_dir a) ''modisco-run.kwargs.json''"

definition config_output_file :: "run_args \<Rightarrow> string" where
  "config_output_file a = path_join (output_dir a) ''modisco-run.input-config.gin''"

text \<open>The copy of the user's config file, made only when a config was given.\<close>

definition copy_config :: "run_env \<Rightarrow> run_args \<Rightarrow> proc stmt" where
  "copy_config env a =
     (case abs_opt env (config a) of
        None \<Rightarrow> (\<lambda>st. (None, st))
      | Some c \<Rightarrow> block [remove_exists env (config_output_file a) (overwrite a),
                        in_fs (copyfile c (config_output_file a))])"

text \<open>The dictionary of hyper-parameters that is saved.\<close>

definition kwargs_json :: "run_env \<Rightarrow> run_args \<Rightarrow> json" where
  "kwargs_json env a =
     JObj [(''contrib_file'', JStr (abspath env (contrib_file a))),
           (''output_dir'', JStr (output_dir a)),
           (''null_contrib_file'', (case null_contrib_file a of None \<Rightarrow> JNull | Some v \<Rightarrow> JStr v)),
           (''config'', JStr (str_opt (abs_opt env (config a)))),
           (''override'', JStr (override a)),
           (''contrib_wildcard'', JStr (contrib_wildcard a)),
           (''only_task_regions'', JBool (only_task_regions a)),
           (''filter_npy'', JStr (str_opt (abs_opt env (filter_npy a)))),
           (''exclude_chr'', JStr (exclude_chr a)),
           (''num_workers'', JNum (real_of_int (num_workers a))),
           (''overwrite'', JBool (overwrite a)),
           (''output_filter_npy'', JStr (output_filter_npy env a)),
           (''gpu'', (case gpu a of None \<Rightarrow> JNull | Some g \<Rightarrow> JNum (real_of_int g))),
           (''memfrac_gpu'', JNum (memfrac_gpu a))]"

text \<open>Everything \<open>bpnet_modisco_run\<close> does before it loads the contribution file.\<close>

definition run_setup :: "run_env \<Rightarrow> run_args \<Rightarrow> proc stmt" where
  "run_setup env a =
     block [add_file_logging env (output_dir a),
            setup_devices env a,
            assert_slash a,
            remove_exists env (output_path env a) (overwrite a),
            remove_exists env (output_filter_npy env a) (overwrite a),
            remove_exists env (kwargs_json_file a) (overwrite a),
            copy_config env a,
            in_fs (write_json (kwargs_json env a) (kwargs_json_file a)),
            gin_parse env (premade a) (abs_opt env (config a)) (num_workers a)
              (split_on (CHR '';'') (override a)),
            log_gin_config env (output_dir a)]"

text \<open>
  The task an entry of the wildcard names: the first of its three parts, if it has three.
\<close>

definition entry_task :: "string \<Rightarrow> string option" where
  "entry_task w =
     (case split_on (CHR ''/'') w of [task, head, head_summary] \<Rightarrow> Some task | _ \<Rightarrow> None)"

text \<open>
  The entries after which the loop can go on: those that name \<open>*\<close> or a known task.
\<close>

definition passes :: "string list \<Rightarrow> string \<Rightarrow> bool" where
  "passes tasks w = (case entry_task w of None \<Rightarrow> False | Some t \<Rightarrow> t = ''*'' \<or> t \<in> set tasks)"

text \<open>
  The loop that computes \<open>subset_tasks\<close>, a set of task names or Python's \<open>None\<close>. Unpacking
  \<open>w.split("/")\<close> into three names raises ValueError unless there are exactly three parts;
  \<open>subset_tasks.add\<close> raises AttributeError once \<open>subset_tasks\<close> is \<open>None\<close>.
\<close>

fun subset_loop :: "string list \<Rightarrow> string list \<Rightarrow> string set option \<Rightarrow> error + string set option" where
  "subset_loop tasks [] subset_tasks = Inr subset_tasks"
| "subset_loop tasks (w # ws) subset_tasks =
     (case split_on (CHR ''/'') w of
        [task, head, head_summary] \<Rightarrow>
          if task = ''*'' then subset_loop tasks ws None
          else if task \<notin> set tasks then Inl ValueError
          else (case subset_tasks of
                  None \<Rightarrow> Inl AttributeError
                | Some s \<Rightarrow> subset_loop tasks ws (Some (insert task s)))
      | _ \<Rightarrow> Inl ValueError)"

definition bpnet_modisco_run :: "run_env \<Rightarrow> run_args \<Rightarrow> proc stmt" where
  "bpnet_modisco_run env a st =
     (case run_setup env a st of
        (Some e, st1) \<Rightarrow> (Some e, st1)
      | (None, st1) \<Rightarrow>
         (case get_tasks env (contrib_file a) st1 of
            Inl e \<Rightarrow> (Some e, st1)
          | Inr tasks \<Rightarrow>
             (case subset_loop tasks (split_on (CHR '','') (contrib_wildcard a)) (Some {}) of
                Inl e \<Rightarrow> (Some e, st1)
              | Inr subset_tasks \<Rightarrow> run_rest env a tasks subset_tasks st1)))"

section \<open>Properties of the SWAG callback\<close>

lemma comprehension_Inr:
  "comprehension f xs = Inr ys \<Longrightarrow> length ys = length xs \<and> (\<forall>i<length xs. f (xs ! i) = Inr (ys ! i))"
proof (induction xs arbitrary: ys)
  case Nil
  then show ?case by simp
next
  case (Cons x xs)
  from Cons.prems obtain y ys' where fx: "f x = Inr y" and r: "comprehension f xs = Inr ys'" and ys: "ys = y # ys'"
    by (auto split: sum.splits)
  from Cons.IH[OF r] have len: "length ys' = length xs" and el: "\<forall>i<length xs. f (xs ! i) = Inr (ys' ! i)" by auto
  show ?case
  proof (intro conjI allI impI)
    show "length ys = length (x # xs)" using len ys by simp
  next
    fix i assume "i < length (x # xs)"
    then show "f ((x # xs) ! i) = Inr (ys ! i)" using fx el ys by (cases i) auto
  qed
qed

lemma tsize_tmap [simp]: "tsize (tmap f t) = tsize t"
  by (cases t) auto

lemma hd_map_single: "length xs = Suc 0 \<Longrightarrow> hd (map f xs) = f (hd xs)"
  by (cases xs) auto

lemma elem_at_tmap: "j < tsize t \<or> tsize t = 1 \<Longrightarrow> elem_at (tmap f t) j = f (elem_at t j)"
  by (cases t) (auto simp: hd_map_single)

lemma hd_zip_single:
  "length xs = Suc 0 \<Longrightarrow> length ys = Suc 0 \<Longrightarrow> hd (zip xs ys) = (hd xs, hd ys)"
  by (cases xs; cases ys) auto

lemma broadcast2_elem:
  "broadcast2 f a b = Inr c \<Longrightarrow> j < tsize c \<Longrightarrow> elem_at c j = f (elem_at a j) (elem_at b j)"
  by (cases a; cases b) (auto simp: hd_map_single hd_zip_single split: if_splits)

lemma broadcast2_tsize:
  "broadcast2 f a b = Inr c \<Longrightarrow> (tsize a = tsize c \<or> tsize a = 1) \<and> (tsize b = tsize c \<or> tsize b = 1)"
  by (cases a; cases b) (auto split: if_splits)

lemma mean_elem_at:
  assumes "mean_elem n (prev, w) = Inr m" and "j < tsize m"
  shows "elem_at m j = (real_of_int n * elem_at prev j + elem_at (NdArray w) j) / real_of_int (n + 1)"
proof -
  from assms(1) obtain s where
    s: "broadcast2 (+) (tmap (\<lambda>x. real_of_int n * x) prev) (NdArray w) = Inr s"
    and m: "m = tmap (\<lambda>x. x / real_of_int (n + 1)) s"
    by (auto simp: mean_elem_def split: sum.splits)
  from m assms(2) have js: "j < tsize s" by simp
  have "elem_at m j = elem_at s j / real_of_int (n + 1)"
    using m js by (simp add: elem_at_tmap)
  also have "elem_at s j = elem_at (tmap (\<lambda>x. real_of_int n * x) prev) j + elem_at (NdArray w) j"
    using broadcast2_elem[OF s js] .
  also have "elem_at (tmap (\<lambda>x. real_of_int n * x) prev) j = real_of_int n * elem_at prev j"
    using broadcast2_tsize[OF s] js by (intro elem_at_tmap) auto
  finally show ?thesis .
qed


lemma moment_elem_at:
  assumes "moment_elem n (prev, m, w) = Inr mo" and "j < tsize mo"
  shows "elem_at mo j = (real_of_int n * elem_at prev j + (elem_at (NdArray w) j) ^ 2) / real_of_int (n + 1)"
proof -
  from assms(1) obtain s where
    s: "broadcast2 (+) (tmap (\<lambda>x. real_of_int n * x) prev) (tmap (\<lambda>x. x ^ 2) (NdArray w)) = Inr s"
    and mo: "mo = tmap (\<lambda>x. x / real_of_int (n + 1)) s"
    by (auto simp: moment_elem_def split: sum.splits)
  from mo assms(2) have js: "j < tsize s" by simp
  have "elem_at mo j = elem_at s j / real_of_int (n + 1)"
    using mo js by (simp add: elem_at_tmap)
  also have "elem_at s j = elem_at (tmap (\<lambda>x. real_of_int n * x) prev) j
                           + elem_at (tmap (\<lambda>x. x ^ 2) (NdArray w)) j"
    using broadcast2_elem[OF s js] .
  also have "elem_at (tmap (\<lambda>x. real_of_int n * x) prev) j = real_of_int n * elem_at prev j"
    using broadcast2_tsize[OF s] js by (intro elem_at_tmap) auto
  also have "elem_at (tmap (\<lambda>x. x ^ 2) (NdArray w)) j = (elem_at (NdArray w) j) ^ 2"
    using broadcast2_tsize[OF s] js by (intro elem_at_tmap) auto
  finally show ?thesis .
qed

lemma col_elem_at:
  assumes "col_elem (m, w) = Inr c" and "j < tsize c"
  shows "elem_at c j = elem_at (NdArray w) j - elem_at m j"
  using assms broadcast2_elem[of "(-)" "NdArray w" m c j] by (simp add: col_elem_def)

lemma mean_evict [simp]: "mean (evict st) = mean st"
  and moments_evict [simp]: "moments (evict st) = moments st"
  and rank_evict [simp]: "rank (evict st) = rank st"
  and start_evict [simp]: "start (evict st) = start st"
  and output_prefix_evict [simp]: "output_prefix (evict st) = output_prefix st"
  by (simp_all add: evict_def)

lemma on_epoch_end_success:
  assumes "on_epoch_end st epoch ws = (None, st')" and "start st \<le> epoch"
  shows "\<exists>m mo c.
     comprehension (mean_elem (epoch - start st)) (zip (mean st) ws) = Inr m \<and>
     comprehension (moment_elem (epoch - start st)) (zip (moments st) (zip m ws)) = Inr mo \<and>
     comprehension col_elem (zip m ws) = Inr c \<and>
     st' = evict (st\<lparr>mean := m, moments := mo, cols := cols st @ [c]\<rparr>)"
  using assms by (auto simp: on_epoch_end_def Let_def split: sum.splits)

lemma on_epoch_end_warmup:
  "epoch < start st \<Longrightarrow> on_epoch_end st epoch ws = (None, evict st)"
  by (simp add: on_epoch_end_def)


lemma comprehension_nth:
  "comprehension f xs = Inr ys \<Longrightarrow> i < length ys \<Longrightarrow> f (xs ! i) = Inr (ys ! i)"
  using comprehension_Inr[of f xs ys] by simp

lemma comprehension_length:
  "comprehension f xs = Inr ys \<Longrightarrow> length ys = length xs"
  using comprehension_Inr[of f xs ys] by simp

lemma comprehension_indexed:
  "(\<And>i. i < length xs \<Longrightarrow> \<exists>y. f (xs ! i) = Inr y \<and> P i y) \<Longrightarrow>
   \<exists>ys. comprehension f xs = Inr ys \<and> length ys = length xs \<and> (\<forall>i<length xs. P i (ys ! i))"
proof (induction xs arbitrary: P)
  case Nil
  then show ?case by simp
next
  case (Cons x xs)
  from Cons.prems[of 0] obtain y where y: "f x = Inr y" "P 0 y" by auto
  have "\<And>i. i < length xs \<Longrightarrow> \<exists>y. f (xs ! i) = Inr y \<and> P (Suc i) y"
    using Cons.prems[of "Suc _"] by auto
  from Cons.IH[of "\<lambda>i. P (Suc i)", OF this] obtain ys where
    ys: "comprehension f xs = Inr ys" "length ys = length xs" "\<forall>i<length xs. P (Suc i) (ys ! i)"
    by blast
  have "\<forall>i<length (x # xs). P i ((y # ys) ! i)"
  proof (intro allI impI)
    fix i assume "i < length (x # xs)"
    then show "P i ((y # ys) ! i)" using y ys by (cases i) auto
  qed
  then show ?case using y ys by simp
qed

lemma mean_elem_fits:
  "fits t (length w) \<Longrightarrow> \<exists>ys. mean_elem n (t, w) = Inr (NdArray ys) \<and> length ys = length w"
  by (cases t) (auto simp: fits_def mean_elem_def)

lemma moment_elem_fits:
  "fits t (length w) \<Longrightarrow> \<exists>ys. moment_elem n (t, m, w) = Inr (NdArray ys) \<and> length ys = length w"
  by (cases t) (auto simp: fits_def moment_elem_def)

lemma col_elem_fits:
  "fits m (length w) \<Longrightarrow> \<exists>ys. col_elem (m, w) = Inr (NdArray ys) \<and> length ys = length w"
  by (cases m) (auto simp: fits_def col_elem_def)

lemma on_epoch_end_fits:
  assumes ge: "start st \<le> epoch"
    and fm: "\<And>i. i < length (mean st) \<Longrightarrow> i < length ws \<Longrightarrow> fits (mean st ! i) (length (ws ! i))"
    and fo: "\<And>i. i < length (moments st) \<Longrightarrow> i < length ws \<Longrightarrow> fits (moments st ! i) (length (ws ! i))"
  shows "\<exists>st'. on_epoch_end st epoch ws = (None, st')
           \<and> (\<forall>i<length (mean st'). fits (mean st' ! i) (length (ws ! i)))
           \<and> (\<forall>i<length (moments st'). fits (moments st' ! i) (length (ws ! i)))"
proof -
  let ?n = "epoch - start st"
  let ?P = "\<lambda>i y. fits y (length (ws ! i))"
  have "\<And>i. i < length (zip (mean st) ws) \<Longrightarrow>
          \<exists>y. mean_elem ?n (zip (mean st) ws ! i) = Inr y \<and> ?P i y"
  proof -
    fix i assume "i < length (zip (mean st) ws)"
    then have i: "i < length (mean st)" "i < length ws" by simp_all
    from mean_elem_fits[OF fm[OF i], of ?n] i
    show "\<exists>y. mean_elem ?n (zip (mean st) ws ! i) = Inr y \<and> ?P i y" by (auto simp: fits_def)
  qed
  from comprehension_indexed[of "zip (mean st) ws" "mean_elem ?n" ?P, OF this] obtain m where
    m: "comprehension (mean_elem ?n) (zip (mean st) ws) = Inr m"
    and lm: "length m = min (length (mean st)) (length ws)"
    and pm: "\<forall>i<length m. fits (m ! i) (length (ws ! i))" by auto
  have "\<And>i. i < length (zip (moments st) (zip m ws)) \<Longrightarrow>
          \<exists>y. moment_elem ?n (zip (moments st) (zip m ws) ! i) = Inr y \<and> ?P i y"
  proof -
    fix i assume "i < length (zip (moments st) (zip m ws))"
    then have i: "i < length (moments st)" "i < length m" "i < length ws" by simp_all
    from moment_elem_fits[OF fo[OF i(1) i(3)], of ?n "m ! i"] i
    show "\<exists>y. moment_elem ?n (zip (moments st) (zip m ws) ! i) = Inr y \<and> ?P i y"
      by (auto simp: fits_def)
  qed
  from comprehension_indexed[of "zip (moments st) (zip m ws)" "moment_elem ?n" ?P, OF this]
  obtain mo where
    mo: "comprehension (moment_elem ?n) (zip (moments st) (zip m ws)) = Inr mo"
    and lmo: "length mo = length (zip (moments st) (zip m ws))"
    and pmo: "\<forall>i<length (zip (moments st) (zip m ws)). fits (mo ! i) (length (ws ! i))" by blast
  have "\<And>i. i < length (zip m ws) \<Longrightarrow> \<exists>y. col_elem (zip m ws ! i) = Inr y \<and> True"
  proof -
    fix i assume "i < length (zip m ws)"
    then have i: "i < length m" "i < length ws" by simp_all
    from pm i have "fits (m ! i) (length (ws ! i))" by simp
    from col_elem_fits[OF this] i show "\<exists>y. col_elem (zip m ws ! i) = Inr y \<and> True" by auto
  qed
  from comprehension_indexed[of "zip m ws" col_elem "\<lambda>i y. True", OF this] obtain c where
    c: "comprehension col_elem (zip m ws) = Inr c" by blast
  let ?st' = "evict (st\<lparr>mean := m, moments := mo, cols := cols st @ [c]\<rparr>)"
  have r: "on_epoch_end st epoch ws = (None, ?st')"
    using ge m mo c by (simp add: on_epoch_end_def Let_def)
  have "\<forall>i<length (mean ?st'). fits (mean ?st' ! i) (length (ws ! i))" using pm by simp
  moreover have "\<forall>i<length (moments ?st'). fits (moments ?st' ! i) (length (ws ! i))"
    using pmo lmo by simp
  ultimately show ?thesis using r by blast
qed

lemma run_epochs_fits:
  assumes "\<forall>c\<in>set calls. map length (snd c) = shp"
    and "\<And>i. i < length (mean st) \<Longrightarrow> i < length shp \<Longrightarrow> fits (mean st ! i) (shp ! i)"
    and "\<And>i. i < length (moments st) \<Longrightarrow> i < length shp \<Longrightarrow> fits (moments st ! i) (shp ! i)"
  shows "fst (run_epochs st calls) = None"
  using assms
proof (induction calls arbitrary: st)
  case Nil
  then show ?case by simp
next
  case (Cons a calls)
  obtain epoch ws where a: "a = (epoch, ws)" by (cases a)
  with Cons.prems(1) have shp: "map length ws = shp" by simp
  then have len: "length shp = length ws" by auto
  have nth: "\<And>i. i < length ws \<Longrightarrow> shp ! i = length (ws ! i)" using shp by auto
  have rest: "\<forall>c\<in>set calls. map length (snd c) = shp" using Cons.prems(1) by simp
  show ?case
  proof (cases "start st \<le> epoch")
    case False
    then have r: "on_epoch_end st epoch ws = (None, evict st)" by (simp add: on_epoch_end_def)
    have "fst (run_epochs (evict st) calls) = None"
      using Cons.IH[OF rest, of "evict st"] Cons.prems(2,3) by simp
    then show ?thesis using a r by simp
  next
    case True
    have fm: "\<And>i. i < length (mean st) \<Longrightarrow> i < length ws \<Longrightarrow> fits (mean st ! i) (length (ws ! i))"
      using Cons.prems(2) len nth by simp
    have fo: "\<And>i. i < length (moments st) \<Longrightarrow> i < length ws \<Longrightarrow> fits (moments st ! i) (length (ws ! i))"
      using Cons.prems(3) len nth by simp
    from on_epoch_end_fits[OF True fm fo] obtain st' where
      r: "on_epoch_end st epoch ws = (None, st')"
      and pm: "\<forall>i<length (mean st'). fits (mean st' ! i) (length (ws ! i))"
      and po: "\<forall>i<length (moments st'). fits (moments st' ! i) (length (ws ! i))" by blast
    have "fst (run_epochs st' calls) = None"
    proof (rule Cons.IH[OF rest])
      fix i assume "i < length (mean st')" "i < length shp"
      then show "fits (mean st' ! i) (shp ! i)" using pm len nth by simp
    next
      fix i assume "i < length (moments st')" "i < length shp"
      then show "fits (moments st' ! i) (shp ! i)" using po len nth by simp
    qed
    then show ?thesis using a r by simp
  qed
qed

lemma run_epochs_from_init_total:
  "\<forall>c\<in>set calls. map length (snd c) = shp \<Longrightarrow> fst (run_epochs (init_swag p s r) calls) = None"
  by (rule run_epochs_fits[where shp = shp]) (simp_all add: init_swag_def fits_def)

lemma elem_at_array: "j < length zs \<Longrightarrow> elem_at (NdArray zs) j = zs ! j"
  by (cases zs) (auto simp: hd_conv_nth)

lemma broadcast2_array:
  "broadcast2 f t (NdArray w) = Inr c \<Longrightarrow>
   \<exists>zs. c = NdArray zs \<and> length zs = broadcast_size t (length w)"
  by (cases t) (auto split: if_splits)

lemma broadcast2_array_left:
  "broadcast2 f (NdArray w) t = Inr c \<Longrightarrow>
   \<exists>zs. c = NdArray zs \<and> length zs = broadcast_size t (length w)"
  by (cases t) (auto split: if_splits)

lemma broadcast_size_tmap [simp]: "broadcast_size (tmap f t) n = broadcast_size t n"
  by (cases t) auto

lemma fits_broadcast_size: "fits t n \<Longrightarrow> broadcast_size t n = n"
  by (cases t) (auto simp: fits_def)

lemma mean_elem_array:
  assumes "mean_elem n (prev, w) = Inr m"
  shows "\<exists>zs. m = NdArray zs \<and> length zs = broadcast_size prev (length w)"
proof -
  from assms obtain s where
    s: "broadcast2 (+) (tmap (\<lambda>x. real_of_int n * x) prev) (NdArray w) = Inr s"
    and m: "m = tmap (\<lambda>x. x / real_of_int (n + 1)) s"
    by (auto simp: mean_elem_def split: sum.splits)
  from broadcast2_array[OF s] obtain ys where "s = NdArray ys"
    and "length ys = broadcast_size prev (length w)" by auto
  then show ?thesis using m by simp
qed

lemma moment_elem_array:
  assumes "moment_elem n (prev, m, w) = Inr mo"
  shows "\<exists>zs. mo = NdArray zs \<and> length zs = broadcast_size prev (length w)"
proof -
  from assms obtain s where
    s: "broadcast2 (+) (tmap (\<lambda>x. real_of_int n * x) prev) (NdArray (map (\<lambda>x. x ^ 2) w)) = Inr s"
    and mo: "mo = tmap (\<lambda>x. x / real_of_int (n + 1)) s"
    by (auto simp: moment_elem_def split: sum.splits)
  from broadcast2_array[OF s] obtain ys where "s = NdArray ys"
    and "length ys = broadcast_size prev (length w)" by auto
  then show ?thesis using mo by simp
qed

lemma col_elem_array:
  assumes "col_elem (NdArray ms, w) = Inr c"
    and "length ms = broadcast_size prev (length w)"
  shows "\<exists>ys. c = NdArray ys \<and> length ys = length ms"
proof -
  from assms(1) have "broadcast2 (-) (NdArray w) (NdArray ms) = Inr c"
    by (simp add: col_elem_def)
  from broadcast2_array_left[OF this] obtain ys where c: "c = NdArray ys"
    and l: "length ys = (if length w = 1 then length ms else length w)" by auto
  have "length w \<noteq> 1 \<Longrightarrow> length ms = length w"
    using assms(2) by (cases prev) auto
  then show ?thesis using c l by auto
qed

lemma on_epoch_end_mean_at:
  assumes ok: "on_epoch_end st epoch ws = (None, st')" and ge: "start st \<le> epoch"
  shows "length (mean st') = min (length (mean st)) (length ws)"
    and "i < length (mean st') \<Longrightarrow>
         \<exists>zs. mean st' ! i = NdArray zs
            \<and> length zs = broadcast_size (mean st ! i) (length (ws ! i))
            \<and> (\<forall>j<length zs. zs ! j =
                 (real_of_int (epoch - start st) * elem_at (mean st ! i) j
                    + elem_at (NdArray (ws ! i)) j) / real_of_int (epoch - start st + 1))"
proof -
  from on_epoch_end_success[OF ok ge] obtain m mo c where
    m: "comprehension (mean_elem (epoch - start st)) (zip (mean st) ws) = Inr m" and
    st': "st' = evict (st\<lparr>mean := m, moments := mo, cols := cols st @ [c]\<rparr>)"
    by blast
  have mean': "mean st' = m" using st' by simp
  show lm: "length (mean st') = min (length (mean st)) (length ws)"
    using comprehension_length[OF m] mean' by simp
  assume i: "i < length (mean st')"
  from i lm have i1: "i < length (mean st)" and i2: "i < length ws" by simp_all
  have "mean_elem (epoch - start st) (zip (mean st) ws ! i) = Inr (m ! i)"
    using comprehension_nth[OF m] i mean' by simp
  then have e: "mean_elem (epoch - start st) (mean st ! i, ws ! i) = Inr (m ! i)"
    using i1 i2 by simp
  from mean_elem_array[OF e] obtain zs where zs: "m ! i = NdArray zs"
    and lz: "length zs = broadcast_size (mean st ! i) (length (ws ! i))" by blast
  have "\<forall>j<length zs. zs ! j =
                 (real_of_int (epoch - start st) * elem_at (mean st ! i) j
                    + elem_at (NdArray (ws ! i)) j) / real_of_int (epoch - start st + 1)"
  proof (intro allI impI)
    fix j assume j: "j < length zs"
    then have "j < tsize (m ! i)" using zs by simp
    from mean_elem_at[OF e this] show "zs ! j =
                 (real_of_int (epoch - start st) * elem_at (mean st ! i) j
                    + elem_at (NdArray (ws ! i)) j) / real_of_int (epoch - start st + 1)"
      unfolding zs elem_at_array[OF j] .
  qed
  then show "\<exists>zs. mean st' ! i = NdArray zs
            \<and> length zs = broadcast_size (mean st ! i) (length (ws ! i))
            \<and> (\<forall>j<length zs. zs ! j =
                 (real_of_int (epoch - start st) * elem_at (mean st ! i) j
                    + elem_at (NdArray (ws ! i)) j) / real_of_int (epoch - start st + 1))"
    using zs lz mean' by blast
qed

lemma on_epoch_end_moments_at:
  assumes ok: "on_epoch_end st epoch ws = (None, st')" and ge: "start st \<le> epoch"
  shows "length (moments st') = min (length (moments st)) (length (mean st'))"
    and "i < length (moments st') \<Longrightarrow>
         \<exists>zs. moments st' ! i = NdArray zs
            \<and> length zs = broadcast_size (moments st ! i) (length (ws ! i))
            \<and> (\<forall>j<length zs. zs ! j =
                 (real_of_int (epoch - start st) * elem_at (moments st ! i) j
                    + (elem_at (NdArray (ws ! i)) j) ^ 2) / real_of_int (epoch - start st + 1))"
proof -
  from on_epoch_end_success[OF ok ge] obtain m mo c where
    m: "comprehension (mean_elem (epoch - start st)) (zip (mean st) ws) = Inr m" and
    mo: "comprehension (moment_elem (epoch - start st)) (zip (moments st) (zip m ws)) = Inr mo" and
    st': "st' = evict (st\<lparr>mean := m, moments := mo, cols := cols st @ [c]\<rparr>)"
    by blast
  have mean': "mean st' = m" and moments': "moments st' = mo" using st' by simp_all
  have lm: "length m = min (length (mean st)) (length ws)"
    using comprehension_length[OF m] by simp
  show lmo: "length (moments st') = min (length (moments st)) (length (mean st'))"
    using comprehension_length[OF mo] lm mean' moments' by simp
  assume i: "i < length (moments st')"
  from i lmo lm have i0: "i < length (moments st)" and i1: "i < length m" and i2: "i < length ws"
    using mean' by simp_all
  have "moment_elem (epoch - start st) (zip (moments st) (zip m ws) ! i) = Inr (mo ! i)"
    using comprehension_nth[OF mo] i moments' by simp
  then have e: "moment_elem (epoch - start st) (moments st ! i, m ! i, ws ! i) = Inr (mo ! i)"
    using i0 i1 i2 by simp
  from moment_elem_array[OF e] obtain zs where zs: "mo ! i = NdArray zs"
    and lz: "length zs = broadcast_size (moments st ! i) (length (ws ! i))" by blast
  have "\<forall>j<length zs. zs ! j =
                 (real_of_int (epoch - start st) * elem_at (moments st ! i) j
                    + (elem_at (NdArray (ws ! i)) j) ^ 2) / real_of_int (epoch - start st + 1)"
  proof (intro allI impI)
    fix j assume j: "j < length zs"
    then have "j < tsize (mo ! i)" using zs by simp
    from moment_elem_at[OF e this] show "zs ! j =
                 (real_of_int (epoch - start st) * elem_at (moments st ! i) j
                    + (elem_at (NdArray (ws ! i)) j) ^ 2) / real_of_int (epoch - start st + 1)"
      unfolding zs elem_at_array[OF j] .
  qed
  then show "\<exists>zs. moments st' ! i = NdArray zs
            \<and> length zs = broadcast_size (moments st ! i) (length (ws ! i))
            \<and> (\<forall>j<length zs. zs ! j =
                 (real_of_int (epoch - start st) * elem_at (moments st ! i) j
                    + (elem_at (NdArray (ws ! i)) j) ^ 2) / real_of_int (epoch - start st + 1))"
    using zs lz moments' by blast
qed

lemma on_epoch_end_fits_arrays:
  assumes ge: "start st \<le> epoch"
    and fm: "\<And>i. i < length (mean st) \<Longrightarrow> i < length ws \<Longrightarrow> fits (mean st ! i) (length (ws ! i))"
    and fo: "\<And>i. i < length (moments st) \<Longrightarrow> i < length ws \<Longrightarrow> fits (moments st ! i) (length (ws ! i))"
  shows "\<exists>st'. on_epoch_end st epoch ws = (None, st')
           \<and> (\<forall>i<length (mean st'). \<exists>zs. mean st' ! i = NdArray zs \<and> length zs = length (ws ! i))
           \<and> (\<forall>i<length (moments st'). \<exists>zs. moments st' ! i = NdArray zs
                  \<and> length zs = length (ws ! i))"
proof -
  from on_epoch_end_fits[OF ge fm fo] obtain st' where
    ok: "on_epoch_end st epoch ws = (None, st')" by blast
  note lm = on_epoch_end_mean_at(1)[OF ok ge]
  note lmo = on_epoch_end_moments_at(1)[OF ok ge]
  have a: "\<forall>i<length (mean st'). \<exists>zs. mean st' ! i = NdArray zs \<and> length zs = length (ws ! i)"
  proof (intro allI impI)
    fix i assume i: "i < length (mean st')"
    then have "fits (mean st ! i) (length (ws ! i))" using lm fm by simp
    from fits_broadcast_size[OF this] on_epoch_end_mean_at(2)[OF ok ge i]
    show "\<exists>zs. mean st' ! i = NdArray zs \<and> length zs = length (ws ! i)" by auto
  qed
  have b: "\<forall>i<length (moments st'). \<exists>zs. moments st' ! i = NdArray zs \<and> length zs = length (ws ! i)"
  proof (intro allI impI)
    fix i assume i: "i < length (moments st')"
    then have "fits (moments st ! i) (length (ws ! i))" using lmo lm fo by simp
    from fits_broadcast_size[OF this] on_epoch_end_moments_at(2)[OF ok ge i]
    show "\<exists>zs. moments st' ! i = NdArray zs \<and> length zs = length (ws ! i)" by auto
  qed
  from ok a b show ?thesis by blast
qed

lemma three_snapshots:
  "case run_epochs (init_swag p 0 r) [(0, [[1]]), (1, [[3]]), (2, [[5]])] of
     (e, st3) \<Rightarrow> e = None \<and> mean st3 = [NdArray [3]] \<and> moments st3 = [NdArray [35 / 3]]
                \<and> diag st3 = Inr [NdArray [8 / 3]]"
  by (simp add: on_epoch_end_def init_swag_def zip_replicate1 mean_elem_def moment_elem_def
      col_elem_def Let_def evict_def diag_def diag_elem_def)

text \<open>
  Claim C1. Whenever a call of \<open>on_epoch_end\<close> with \<open>epoch \<ge> start\<close> returns, with
  \<open>n = epoch - start\<close>, the new mean and the new second moment have the lengths the zips
  give them; every component of the new mean is an array, of the size that combining the
  old component with the weight array gives, and each of its elements is
  \<open>(n * old_mean + parameters) / (n + 1)\<close>; every component of the new second moment is an
  array of the size that the old component and the weight array give, and each of its
  elements is \<open>(n * old_moment + parameters\<^sup>2) / (n + 1)\<close>. The call does return when the
  values held fit the weight arrays, and then the new components have the sizes of the
  weight arrays; every call of a training whose weights keep their shapes returns, from a
  fresh callback on. For \<open>start = 0\<close> and the three snapshots 1, 3, 5 the three calls return
  and leave the mean 3, the second moment 35/3 and the diagonal 8/3.
\<close>

theorem swag_running_average:
  "(on_epoch_end st epoch ws = (None, st') \<and> start st \<le> epoch \<longrightarrow>
      length (mean st') = min (length (mean st)) (length ws) \<and>
      length (moments st') = min (length (moments st)) (length (mean st')) \<and>
      (\<forall>i<length (mean st'). \<exists>zs. mean st' ! i = NdArray zs
          \<and> length zs = broadcast_size (mean st ! i) (length (ws ! i))
          \<and> (\<forall>j<length zs. zs ! j =
                (real_of_int (epoch - start st) * elem_at (mean st ! i) j
                   + elem_at (NdArray (ws ! i)) j) / real_of_int (epoch - start st + 1))) \<and>
      (\<forall>i<length (moments st'). \<exists>zs. moments st' ! i = NdArray zs
          \<and> length zs = broadcast_size (moments st ! i) (length (ws ! i))
          \<and> (\<forall>j<length zs. zs ! j =
                (real_of_int (epoch - start st) * elem_at (moments st ! i) j
                   + (elem_at (NdArray (ws ! i)) j) ^ 2) / real_of_int (epoch - start st + 1))))
   \<and> (start st \<le> epoch
        \<and> (\<forall>i. i < length (mean st) \<and> i < length ws \<longrightarrow> fits (mean st ! i) (length (ws ! i)))
        \<and> (\<forall>i. i < length (moments st) \<and> i < length ws \<longrightarrow>
               fits (moments st ! i) (length (ws ! i))) \<longrightarrow>
      (\<exists>st2. on_epoch_end st epoch ws = (None, st2)
         \<and> (\<forall>i<length (mean st2). \<exists>zs. mean st2 ! i = NdArray zs \<and> length zs = length (ws ! i))
         \<and> (\<forall>i<length (moments st2). \<exists>zs. moments st2 ! i = NdArray zs
                \<and> length zs = length (ws ! i))))
   \<and> ((\<forall>c\<in>set calls. map length (snd c) = shp) \<longrightarrow>
      fst (run_epochs (init_swag p s r) calls) = None)
   \<and> (\<forall>q k. case run_epochs (init_swag q 0 k) [(0, [[1]]), (1, [[3]]), (2, [[5]])] of
         (e, st3) \<Rightarrow> e = None \<and> mean st3 = [NdArray [3]] \<and> moments st3 = [NdArray [35 / 3]]
                    \<and> diag st3 = Inr [NdArray [8 / 3]])"
proof (intro conjI)
  show "on_epoch_end st epoch ws = (None, st') \<and> start st \<le> epoch \<longrightarrow>
      length (mean st') = min (length (mean st)) (length ws) \<and>
      length (moments st') = min (length (moments st)) (length (mean st')) \<and>
      (\<forall>i<length (mean st'). \<exists>zs. mean st' ! i = NdArray zs
          \<and> length zs = broadcast_size (mean st ! i) (length (ws ! i))
          \<and> (\<forall>j<length zs. zs ! j =
                (real_of_int (epoch - start st) * elem_at (mean st ! i) j
                   + elem_at (NdArray (ws ! i)) j) / real_of_int (epoch - start st + 1))) \<and>
      (\<forall>i<length (moments st'). \<exists>zs. moments st' ! i = NdArray zs
          \<and> length zs = broadcast_size (moments st ! i) (length (ws ! i))
          \<and> (\<forall>j<length zs. zs ! j =
                (real_of_int (epoch - start st) * elem_at (moments st ! i) j
                   + (elem_at (NdArray (ws ! i)) j) ^ 2) / real_of_int (epoch - start st + 1)))"
    using on_epoch_end_mean_at[of st epoch ws st'] on_epoch_end_moments_at[of st epoch ws st']
    by blast
  show "start st \<le> epoch
        \<and> (\<forall>i. i < length (mean st) \<and> i < length ws \<longrightarrow> fits (mean st ! i) (length (ws ! i)))
        \<and> (\<forall>i. i < length (moments st) \<and> i < length ws \<longrightarrow>
               fits (moments st ! i) (length (ws ! i))) \<longrightarrow>
      (\<exists>st2. on_epoch_end st epoch ws = (None, st2)
         \<and> (\<forall>i<length (mean st2). \<exists>zs. mean st2 ! i = NdArray zs \<and> length zs = length (ws ! i))
         \<and> (\<forall>i<length (moments st2). \<exists>zs. moments st2 ! i = NdArray zs
                \<and> length zs = length (ws ! i)))"
  proof
    assume h: "start st \<le> epoch
        \<and> (\<forall>i. i < length (mean st) \<and> i < length ws \<longrightarrow> fits (mean st ! i) (length (ws ! i)))
        \<and> (\<forall>i. i < length (moments st) \<and> i < length ws \<longrightarrow>
               fits (moments st ! i) (length (ws ! i)))"
    then show "\<exists>st2. on_epoch_end st epoch ws = (None, st2)
         \<and> (\<forall>i<length (mean st2). \<exists>zs. mean st2 ! i = NdArray zs \<and> length zs = length (ws ! i))
         \<and> (\<forall>i<length (moments st2). \<exists>zs. moments st2 ! i = NdArray zs
                \<and> length zs = length (ws ! i))"
      by (intro on_epoch_end_fits_arrays) simp_all
  qed
  show "(\<forall>c\<in>set calls. map length (snd c) = shp) \<longrightarrow>
      fst (run_epochs (init_swag p s r) calls) = None"
    using run_epochs_from_init_total[of calls shp p s r] by blast
  show "\<forall>q k. case run_epochs (init_swag q 0 k) [(0, [[1]]), (1, [[3]]), (2, [[5]])] of
         (e, st3) \<Rightarrow> e = None \<and> mean st3 = [NdArray [3]] \<and> moments st3 = [NdArray [35 / 3]]
                    \<and> diag st3 = Inr [NdArray [8 / 3]]"
    using three_snapshots by blast
qed

lemma third_epoch_eval:
  "on_epoch_end \<lparr>mean = [NdArray [2, 3, 4]], moments = [NdArray [5, 10, 17]], rank = 2, start = 0,
                  output_prefix = ''swag'', cols = []\<rparr> 2 [[5, 6, 7]] =
     (None, \<lparr>mean = [NdArray [3, 4, 5]], moments = [NdArray [35 / 3, 56 / 3, 83 / 3]], rank = 2,
             start = 0, output_prefix = ''swag'', cols = [[NdArray [2, 2, 2]]]\<rparr>)"
  by (simp add: on_epoch_end_def mean_elem_def moment_elem_def col_elem_def Let_def evict_def)

text \<open>
  The third accumulating epoch (\<open>n = 2\<close>) of a callback that holds the mean 2, 3, 4 and the
  second moment 5, 10, 17 of one array of three weights, on the weights 5, 6, 7: the
  theorem gives an array of three elements for the mean and for the second moment, and
  their elements.
\<close>

theorem swag_running_average_witness:
  "on_epoch_end \<lparr>mean = [NdArray [2, 3, 4]], moments = [NdArray [5, 10, 17]], rank = 2, start = 0,
                  output_prefix = ''swag'', cols = []\<rparr> 2 [[5, 6, 7]] =
     (None, \<lparr>mean = [NdArray [3, 4, 5]], moments = [NdArray [35 / 3, 56 / 3, 83 / 3]], rank = 2,
             start = 0, output_prefix = ''swag'', cols = [[NdArray [2, 2, 2]]]\<rparr>)
   \<and> start \<lparr>mean = [NdArray [2, 3, 4]], moments = [NdArray [5, 10, 17]], rank = 2, start = 0,
             output_prefix = ''swag'', cols = []\<rparr> \<le> 2
   \<and> (\<exists>zs. [NdArray [3, 4, 5]] ! 0 = NdArray zs \<and> length zs = 3
         \<and> zs ! 0 = (2 * 2 + 5) / 3 \<and> zs ! 1 = (2 * 3 + 6) / 3 \<and> zs ! 2 = (2 * 4 + 7) / 3)
   \<and> (\<exists>zs. [NdArray [35 / 3, 56 / 3, 83 / 3]] ! 0 = NdArray zs \<and> length zs = 3
         \<and> zs ! 0 = (2 * 5 + 5 ^ 2) / 3 \<and> zs ! 1 = (2 * 10 + 6 ^ 2) / 3
         \<and> zs ! 2 = (2 * 17 + 7 ^ 2) / 3)"
proof -
  let ?S = "\<lparr>mean = [NdArray [2, 3, 4]], moments = [NdArray [5, 10, 17]], rank = 2, start = 0,
             output_prefix = ''swag'', cols = []\<rparr>"
  let ?S' = "\<lparr>mean = [NdArray [3, 4, 5]], moments = [NdArray [35 / 3, 56 / 3, 83 / 3]], rank = 2,
             start = 0, output_prefix = ''swag'', cols = [[NdArray [2, 2, 2]]]\<rparr>"
  have ge: "start ?S \<le> 2" by simp
  note T = swag_running_average[of ?S 2 "[[5, 6, 7]]" ?S', THEN conjunct1, THEN mp,
      OF conjI[OF third_epoch_eval ge]]
  note m = T[THEN conjunct2, THEN conjunct2, THEN conjunct1]
  note mo = T[THEN conjunct2, THEN conjunct2, THEN conjunct2]
  from m[rule_format, of 0] obtain zs where
    z: "[NdArray [3, 4, 5]] ! 0 = NdArray zs" "length zs = 3"
       "\<forall>j<length zs. zs ! j = (2 * elem_at (NdArray [2, 3, 4]) j + elem_at (NdArray [5, 6, 7]) j) / 3"
    by auto
  from mo[rule_format, of 0] obtain ys where
    y: "[NdArray [35 / 3, 56 / 3, 83 / 3]] ! 0 = NdArray ys" "length ys = 3"
       "\<forall>j<length ys. ys ! j = (2 * elem_at (NdArray [5, 10, 17]) j
            + (elem_at (NdArray [5, 6, 7]) j) ^ 2) / 3"
    by auto
  have "zs ! 0 = (2 * 2 + 5) / 3 \<and> zs ! 1 = (2 * 3 + 6) / 3 \<and> zs ! 2 = (2 * 4 + 7) / 3"
    using z(2) z(3)[rule_format, of 0] z(3)[rule_format, of 1] z(3)[rule_format, of 2] by simp
  moreover have "ys ! 0 = (2 * 5 + 5 ^ 2) / 3 \<and> ys ! 1 = (2 * 10 + 6 ^ 2) / 3
         \<and> ys ! 2 = (2 * 17 + 7 ^ 2) / 3"
    using y(2) y(3)[rule_format, of 0] y(3)[rule_format, of 1] y(3)[rule_format, of 2] by simp
  ultimately show ?thesis using third_epoch_eval ge z(1,2) y(1,2) by blast
qed

lemma on_epoch_end_rank [simp]: "rank (snd (on_epoch_end st epoch ws)) = rank st"
  by (simp add: on_epoch_end_def Let_def split: sum.splits)

lemma on_epoch_end_start [simp]: "start (snd (on_epoch_end st epoch ws)) = start st"
  by (simp add: on_epoch_end_def Let_def split: sum.splits)

lemma evict_bound:
  "0 \<le> rank st \<Longrightarrow> int (length (cols st)) \<le> rank st + 1 \<Longrightarrow> int (length (cols (evict st))) \<le> rank st"
  by (auto simp: evict_def)

lemma on_epoch_end_cols_bound:
  assumes "0 \<le> rank st" and "int (length (cols st)) \<le> rank st"
  shows "int (length (cols (snd (on_epoch_end st epoch ws)))) \<le> rank st"
proof (cases "on_epoch_end st epoch ws")
  case (Pair e st')
  show ?thesis
  proof (cases "start st \<le> epoch")
    case False
    then have "st' = evict st" using Pair by (simp add: on_epoch_end_warmup)
    then show ?thesis using Pair assms evict_bound[of st] by simp
  next
    case True
    show ?thesis
    proof (cases e)
      case None
      with Pair on_epoch_end_success[of st epoch ws st'] True obtain m mo c where
        st': "st' = evict (st\<lparr>mean := m, moments := mo, cols := cols st @ [c]\<rparr>)" by blast
      have "int (length (cols st')) \<le> rank (st\<lparr>mean := m, moments := mo, cols := cols st @ [c]\<rparr>)"
        unfolding st' using assms by (intro evict_bound) simp_all
      then show ?thesis using Pair by simp
    next
      case (Some err)
      with Pair True have "cols st' = cols st"
        by (auto simp: on_epoch_end_def Let_def split: sum.splits)
      then show ?thesis using Pair assms by simp
    qed
  qed
qed

lemma run_epochs_rank [simp]: "rank (snd (run_epochs st calls)) = rank st"
proof (induction calls arbitrary: st)
  case Nil
  then show ?case by simp
next
  case (Cons a calls)
  obtain epoch ws where a: "a = (epoch, ws)" by (cases a)
  obtain e st' where r: "on_epoch_end st epoch ws = (e, st')" by (cases "on_epoch_end st epoch ws")
  have rk: "rank st' = rank st" using on_epoch_end_rank[of st epoch ws] r by simp
  show ?case using a r rk Cons.IH[of st'] by (cases e) simp_all
qed

lemma run_epochs_cols_bound:
  "0 \<le> rank st \<Longrightarrow> int (length (cols st)) \<le> rank st \<Longrightarrow>
   int (length (cols (snd (run_epochs st calls)))) \<le> rank st"
proof (induction calls arbitrary: st)
  case Nil
  then show ?case by simp
next
  case (Cons a calls)
  obtain epoch ws where a: "a = (epoch, ws)" by (cases a)
  obtain e st' where r: "on_epoch_end st epoch ws = (e, st')" by (cases "on_epoch_end st epoch ws")
  have rk: "rank st' = rank st" using on_epoch_end_rank[of st epoch ws] r by simp
  have b: "int (length (cols st')) \<le> rank st"
    using on_epoch_end_cols_bound[OF Cons.prems, of epoch ws] r by simp
  show ?case
  proof (cases e)
    case None
    then show ?thesis using a r rk b Cons.IH[of st'] Cons.prems by simp
  next
    case (Some err)
    then show ?thesis using a r b by simp
  qed
qed

lemma on_epoch_end_cols:
  assumes ok: "on_epoch_end st epoch ws = (None, st')" and ge: "start st \<le> epoch"
  shows "\<exists>c. comprehension col_elem (zip (mean st') ws) = Inr c
            \<and> cols st' = (if int (length (cols st @ [c])) > rank st
                          then tl (cols st @ [c]) else cols st @ [c])
            \<and> length c = length (mean st')
            \<and> (\<forall>i<length c. \<exists>zs ys. mean st' ! i = NdArray zs \<and> c ! i = NdArray ys
                  \<and> length ys = length zs
                  \<and> (\<forall>j<length ys. ys ! j = elem_at (NdArray (ws ! i)) j - zs ! j))"
proof -
  from on_epoch_end_success[OF ok ge] obtain m mo c where
    m: "comprehension (mean_elem (epoch - start st)) (zip (mean st) ws) = Inr m" and
    c: "comprehension col_elem (zip m ws) = Inr c" and
    st': "st' = evict (st\<lparr>mean := m, moments := mo, cols := cols st @ [c]\<rparr>)"
    by blast
  have mean': "mean st' = m" using st' by simp
  have lm: "length m = min (length (mean st)) (length ws)"
    using comprehension_length[OF m] by simp
  have lc: "length c = length m" using comprehension_length[OF c] lm by simp
  have cs: "cols st' = (if int (length (cols st @ [c])) > rank st
                        then tl (cols st @ [c]) else cols st @ [c])"
    using st' by (simp add: evict_def)
  have el: "\<forall>i<length c. \<exists>zs ys. mean st' ! i = NdArray zs \<and> c ! i = NdArray ys
                  \<and> length ys = length zs
                  \<and> (\<forall>j<length ys. ys ! j = elem_at (NdArray (ws ! i)) j - zs ! j)"
  proof (intro allI impI)
    fix i assume i: "i < length c"
    from i lc lm have i0: "i < length (mean st)" and i1: "i < length m" and i2: "i < length ws"
      by simp_all
    have "mean_elem (epoch - start st) (zip (mean st) ws ! i) = Inr (m ! i)"
      using comprehension_nth[OF m i1] .
    then have "mean_elem (epoch - start st) (mean st ! i, ws ! i) = Inr (m ! i)"
      using i0 i2 by simp
    from mean_elem_array[OF this] obtain zs where zs: "m ! i = NdArray zs"
      and lz: "length zs = broadcast_size (mean st ! i) (length (ws ! i))" by blast
    have "col_elem (zip m ws ! i) = Inr (c ! i)" using comprehension_nth[OF c i] .
    then have ce: "col_elem (m ! i, ws ! i) = Inr (c ! i)" using i1 i2 by simp
    then have "col_elem (NdArray zs, ws ! i) = Inr (c ! i)" using zs by simp
    from col_elem_array[OF this lz] obtain ys where ys: "c ! i = NdArray ys"
      and ly: "length ys = length zs" by blast
    have "\<forall>j<length ys. ys ! j = elem_at (NdArray (ws ! i)) j - zs ! j"
    proof (intro allI impI)
      fix j assume j: "j < length ys"
      then have jt: "j < tsize (c ! i)" using ys by simp
      have jz: "j < length zs" using j ly by simp
      from col_elem_at[OF ce jt]
      show "ys ! j = elem_at (NdArray (ws ! i)) j - zs ! j"
        unfolding ys zs elem_at_array[OF j] elem_at_array[OF jz] .
    qed
    then show "\<exists>zs ys. mean st' ! i = NdArray zs \<and> c ! i = NdArray ys
                  \<and> length ys = length zs
                  \<and> (\<forall>j<length ys. ys ! j = elem_at (NdArray (ws ! i)) j - zs ! j)"
      using zs ys ly mean' by blast
  qed
  from c cs el lc mean' show ?thesis by blast
qed

lemma on_epoch_end_append:
  assumes ok: "on_epoch_end st epoch ws = (None, st')" and ge: "start st \<le> epoch"
  shows "\<exists>c. comprehension col_elem (zip (mean st') ws) = Inr c
            \<and> cols st' = (if int (length (cols st @ [c])) > rank st
                          then tl (cols st @ [c]) else cols st @ [c])"
    and "rank st' = rank st" and "start st' = start st"
proof -
  show "\<exists>c. comprehension col_elem (zip (mean st') ws) = Inr c
            \<and> cols st' = (if int (length (cols st @ [c])) > rank st
                          then tl (cols st @ [c]) else cols st @ [c])"
    using on_epoch_end_cols[OF ok ge] by blast
  show "rank st' = rank st" using on_epoch_end_rank[of st epoch ws] ok by simp
  show "start st' = start st" using on_epoch_end_start[of st epoch ws] ok by simp
qed

lemma five_accumulating_epochs:
  assumes c1: "on_epoch_end (init_swag q s0 2) e1 w1 = (None, t1)" and g1: "s0 \<le> e1"
    and c2: "on_epoch_end t1 e2 w2 = (None, t2)" and g2: "s0 \<le> e2"
    and c3: "on_epoch_end t2 e3 w3 = (None, t3)" and g3: "s0 \<le> e3"
    and c4: "on_epoch_end t3 e4 w4 = (None, t4)" and g4: "s0 \<le> e4"
    and c5: "on_epoch_end t4 e5 w5 = (None, t5)" and g5: "s0 \<le> e5"
  shows "\<exists>a b. comprehension col_elem (zip (mean t4) w4) = Inr a
            \<and> comprehension col_elem (zip (mean t5) w5) = Inr b
            \<and> cols t5 = [a, b]"
proof -
  have s0: "start (init_swag q s0 2) = s0" and r0: "rank (init_swag q s0 2) = 2"
    and k0: "cols (init_swag q s0 2) = []" by (simp_all add: init_swag_def)
  from on_epoch_end_append[OF c1] g1 s0 r0 k0 obtain x1 where
    k1: "cols t1 = [x1]" and r1: "rank t1 = 2" and s1: "start t1 = s0" by auto
  from on_epoch_end_append[OF c2] g2 s1 r1 k1 obtain x2 where
    k2: "cols t2 = [x1, x2]" and r2: "rank t2 = 2" and s2: "start t2 = s0" by auto
  from on_epoch_end_append[OF c3] g3 s2 r2 k2 obtain x3 where
    k3: "cols t3 = [x2, x3]" and r3: "rank t3 = 2" and s3: "start t3 = s0" by auto
  from on_epoch_end_append[OF c4] g4 s3 r3 k3 obtain x4 where
    x4: "comprehension col_elem (zip (mean t4) w4) = Inr x4" and
    k4: "cols t4 = [x3, x4]" and r4: "rank t4 = 2" and s4: "start t4 = s0" by auto
  from on_epoch_end_append[OF c5] g5 s4 r4 k4 obtain x5 where
    x5: "comprehension col_elem (zip (mean t5) w5) = Inr x5" and
    k5: "cols t5 = [x4, x5]" by auto
  from x4 x5 k5 show ?thesis by blast
qed

lemma five_epochs:
  "run_epochs (init_swag p 0 2) [(0, [[1]]), (1, [[3]]), (2, [[5]]), (3, [[7]]), (4, [[9]])] =
     (None, \<lparr>mean = [NdArray [5]], moments = [NdArray [33]], rank = 2, start = 0,
             output_prefix = p, cols = [[NdArray [3]], [NdArray [4]]]\<rparr>)"
  by (simp add: on_epoch_end_def init_swag_def zip_replicate1 mean_elem_def moment_elem_def
      col_elem_def Let_def evict_def)

lemma four_epochs:
  "run_epochs (init_swag p 0 2) [(0, [[1]]), (1, [[3]]), (2, [[5]]), (3, [[7]])] =
     (None, \<lparr>mean = [NdArray [4]], moments = [NdArray [21]], rank = 2, start = 0,
             output_prefix = p, cols = [[NdArray [2]], [NdArray [3]]]\<rparr>)"
  by (simp add: on_epoch_end_def init_swag_def zip_replicate1 mean_elem_def moment_elem_def
      col_elem_def Let_def evict_def)

lemma mean_elem_float:
  "mean_elem n (PyFloat a, w) = Inr (NdArray (map (\<lambda>x. (real_of_int n * a + x) / real_of_int (n + 1)) w))"
  by (simp add: mean_elem_def comp_def)

lemma moment_elem_float:
  "moment_elem n (PyFloat a, m, w) =
     Inr (NdArray (map (\<lambda>x. (real_of_int n * a + x ^ 2) / real_of_int (n + 1)) w))"
  by (simp add: moment_elem_def comp_def)

lemma col_elem_same_length:
  "length xs = length w \<Longrightarrow> col_elem (NdArray xs, w) = Inr (NdArray (map2 (-) w xs))"
  by (simp add: col_elem_def)

lemma comprehension_map_all:
  "(\<And>x. f (h x) = Inr (g x)) \<Longrightarrow> comprehension f (map h xs) = Inr (map g xs)"
  by (induction xs) auto

lemma zip_map_take_self:
  "zip (map g (take k ws)) ws = map (\<lambda>w. (g w, w)) (take k ws)"
proof (induction ws arbitrary: k)
  case Nil
  then show ?case by simp
next
  case (Cons w ws)
  then show ?case by (cases k) simp_all
qed

lemma first_epoch_from_init:
  assumes ge: "s \<le> epoch"
  shows "\<exists>st'. on_epoch_end (init_swag p s r) epoch ws = (None, st')
          \<and> mean st' = map (\<lambda>w. NdArray (map (\<lambda>x. (real_of_int (epoch - s) * 0 + x) / real_of_int (epoch - s + 1)) w)) (take 2000 ws)
          \<and> length (moments st') = min 2000 (length ws)"
proof -
  let ?n = "epoch - s"
  let ?g = "\<lambda>w. NdArray (map (\<lambda>x. (real_of_int ?n * 0 + x) / real_of_int (?n + 1)) w)"
  let ?m = "map ?g (take 2000 ws)"
  let ?h = "\<lambda>(m :: tensor, w). NdArray (map (\<lambda>x. (real_of_int ?n * 0 + x ^ 2) / real_of_int (?n + 1)) w)"
  let ?mo = "map ?h (take 2000 (zip ?m ws))"
  let ?c = "\<lambda>w. NdArray (map2 (-) w (map (\<lambda>x. (real_of_int ?n * 0 + x) / real_of_int (?n + 1)) w))"
  let ?col = "map ?c (take 2000 ws)"
  have m: "comprehension (mean_elem ?n) (zip (replicate 2000 (PyFloat 0)) ws) = Inr ?m"
    unfolding zip_replicate1 by (rule comprehension_map_all) (rule mean_elem_float)
  have mo: "comprehension (moment_elem ?n) (zip (replicate 2000 (PyFloat 0)) (zip ?m ws)) = Inr ?mo"
    unfolding zip_replicate1
    by (rule comprehension_map_all) (simp add: moment_elem_float split: prod.splits)
  have c: "comprehension col_elem (zip ?m ws) = Inr ?col"
    unfolding zip_map_take_self
    by (rule comprehension_map_all) (simp add: col_elem_same_length)
  have "on_epoch_end (init_swag p s r) epoch ws =
          (None, evict ((init_swag p s r)\<lparr>mean := ?m, moments := ?mo, cols := [?col]\<rparr>))"
    using ge m mo c by (simp add: on_epoch_end_def init_swag_def Let_def)
  moreover have "length ?mo = min 2000 (length ws)" by simp
  ultimately show ?thesis by simp
qed

lemma map_NdArray_eq_take:
  "(map NdArray (take 2000 ws) = map NdArray ws) = (length ws \<le> 2000)"
proof
  assume "map NdArray (take 2000 ws) = map NdArray ws"
  then have "length (map NdArray (take 2000 ws)) = length (map NdArray ws)" by simp
  then show "length ws \<le> 2000" by simp
next
  assume "length ws \<le> 2000"
  then show "map NdArray (take 2000 ws) = map NdArray ws" by simp
qed

text \<open>
  Claim C9. On a fresh callback, whose mean and second moment are lists of 2000 zeros, a call
  of \<open>on_epoch_end\<close> with \<open>epoch \<ge> start\<close> always returns, and leaves a mean and a second
  moment of length \<open>min 2000 (length ws)\<close>, where \<open>ws\<close> is the list of weight arrays; so the
  mean can be the whole snapshot only if the model has at most 2000 arrays. At
  \<open>epoch = start\<close>, the first accumulating epoch of a training that starts before \<open>start\<close>,
  the mean is the first 2000 arrays of the snapshot, and it is the whole snapshot exactly
  when the model has at most 2000 arrays.
\<close>

theorem placeholder_capacity_truncates:
  "s \<le> epoch \<longrightarrow>
     (\<exists>st'. on_epoch_end (init_swag p s r) epoch ws = (None, st')
        \<and> length (mean st') = min 2000 (length ws)
        \<and> length (moments st') = min 2000 (length ws)
        \<and> (mean st' = map NdArray ws \<longrightarrow> length ws \<le> 2000)
        \<and> (epoch = s \<longrightarrow> mean st' = map NdArray (take 2000 ws)
                          \<and> (mean st' = map NdArray ws) = (length ws \<le> 2000)))"
proof
  assume ge: "s \<le> epoch"
  from first_epoch_from_init[OF ge, of p r ws] obtain st' where
    ok: "on_epoch_end (init_swag p s r) epoch ws = (None, st')" and
    mn: "mean st' = map (\<lambda>w. NdArray (map (\<lambda>x. (real_of_int (epoch - s) * 0 + x) / real_of_int (epoch - s + 1)) w)) (take 2000 ws)" and
    lmo: "length (moments st') = min 2000 (length ws)"
    by blast
  have lm: "length (mean st') = min 2000 (length ws)" using mn by simp
  have only: "mean st' = map NdArray ws \<longrightarrow> length ws \<le> 2000"
  proof
    assume "mean st' = map NdArray ws"
    then have "length (mean st') = length ws" by simp
    with lm show "length ws \<le> 2000" by simp
  qed
  have eq: "epoch = s \<longrightarrow> mean st' = map NdArray (take 2000 ws)"
    using mn by simp
  have iff: "epoch = s \<longrightarrow> mean st' = map NdArray (take 2000 ws)
                          \<and> (mean st' = map NdArray ws) = (length ws \<le> 2000)"
  proof
    assume "epoch = s"
    with eq have m: "mean st' = map NdArray (take 2000 ws)" by blast
    show "mean st' = map NdArray (take 2000 ws)
            \<and> (mean st' = map NdArray ws) = (length ws \<le> 2000)"
      unfolding m using map_NdArray_eq_take[of ws] by blast
  qed
  show "\<exists>st'. on_epoch_end (init_swag p s r) epoch ws = (None, st')
        \<and> length (mean st') = min 2000 (length ws)
        \<and> length (moments st') = min 2000 (length ws)
        \<and> (mean st' = map NdArray ws \<longrightarrow> length ws \<le> 2000)
        \<and> (epoch = s \<longrightarrow> mean st' = map NdArray (take 2000 ws)
                          \<and> (mean st' = map NdArray ws) = (length ws \<le> 2000))"
    using ok lm lmo only iff by (intro exI[of _ st'] conjI)
qed

text \<open>
  A fresh callback and a model with two weight arrays.
\<close>

theorem placeholder_capacity_truncates_witness:
  "(0::int) \<le> 0 \<and>
   (\<exists>st'. on_epoch_end (init_swag ''swag'' 0 139) 0 [[1, 2], [3]] = (None, st')
        \<and> length (mean st') = 2 \<and> mean st' = [NdArray [1, 2], NdArray [3]])"
proof -
  from placeholder_capacity_truncates[of 0 0 "''swag''" 139 "[[1, 2], [3]]"]
  obtain st' where ok: "on_epoch_end (init_swag ''swag'' 0 139) 0 [[1, 2], [3]] = (None, st')"
    and lm: "length (mean st') = min 2000 (length [[1, 2], [3 :: real]])"
    and m: "mean st' = map NdArray (take 2000 [[1, 2], [3]])"
    by blast
  have "length (mean st') = 2" using lm by simp
  moreover have "mean st' = [NdArray [1, 2], NdArray [3]]" using m by simp
  ultimately show ?thesis using ok by blast
qed

lemma run_epochs_warmup:
  "(\<forall>c\<in>set calls. fst c < start st) \<Longrightarrow>
   fst (run_epochs st calls) = None \<and>
   mean (snd (run_epochs st calls)) = mean st \<and>
   moments (snd (run_epochs st calls)) = moments st"
proof (induction calls arbitrary: st)
  case Nil
  then show ?case by simp
next
  case (Cons a calls)
  obtain epoch ws where a: "a = (epoch, ws)" by (cases a)
  with Cons.prems have lt: "epoch < start st" by simp
  have step: "on_epoch_end st epoch ws = (None, evict st)"
    using lt by (rule on_epoch_end_warmup)
  have "\<forall>c\<in>set calls. fst c < start (evict st)" using Cons.prems by simp
  from Cons.IH[OF this] show ?case using a step by simp
qed

text \<open>
  Claim C4. A call of \<open>on_epoch_end\<close> with \<open>epoch < start\<close> returns and leaves the mean and the
  second moment as they were; so does any sequence of such calls. For \<open>start = 5\<close> the calls
  with epochs 0, 1, 2, 3, 4 on a fresh callback leave both at their initial 2000 zeros,
  whatever the weights.
\<close>

theorem warmup_leaves_moments:
  "(epoch < start st \<longrightarrow>
      fst (on_epoch_end st epoch ws) = None \<and>
      mean (snd (on_epoch_end st epoch ws)) = mean st \<and>
      moments (snd (on_epoch_end st epoch ws)) = moments st)
   \<and> ((\<forall>c\<in>set calls. fst c < start st) \<longrightarrow>
      fst (run_epochs st calls) = None \<and>
      mean (snd (run_epochs st calls)) = mean st \<and>
      moments (snd (run_epochs st calls)) = moments st)
   \<and> (\<forall>p r w0 w1 w2 w3 w4.
        case run_epochs (init_swag p 5 r) [(0, w0), (1, w1), (2, w2), (3, w3), (4, w4)] of
          (e, st5) \<Rightarrow> e = None \<and> mean st5 = replicate 2000 (PyFloat 0)
                     \<and> moments st5 = replicate 2000 (PyFloat 0))"
proof (intro conjI)
  show "epoch < start st \<longrightarrow>
      fst (on_epoch_end st epoch ws) = None \<and>
      mean (snd (on_epoch_end st epoch ws)) = mean st \<and>
      moments (snd (on_epoch_end st epoch ws)) = moments st"
    by (simp add: on_epoch_end_warmup)
  show "(\<forall>c\<in>set calls. fst c < start st) \<longrightarrow>
      fst (run_epochs st calls) = None \<and>
      mean (snd (run_epochs st calls)) = mean st \<and>
      moments (snd (run_epochs st calls)) = moments st"
    using run_epochs_warmup[of calls st] by blast
  show "\<forall>p r w0 w1 w2 w3 w4.
        case run_epochs (init_swag p 5 r) [(0, w0), (1, w1), (2, w2), (3, w3), (4, w4)] of
          (e, st5) \<Rightarrow> e = None \<and> mean st5 = replicate 2000 (PyFloat 0)
                     \<and> moments st5 = replicate 2000 (PyFloat 0)"
  proof (intro allI)
    fix p r w0 w1 w2 w3 w4
    let ?calls = "[(0, w0), (1, w1), (2, w2), (3, w3), (4, w4)] :: (int \<times> ndarray list) list"
    have "\<forall>c\<in>set ?calls. fst c < start (init_swag p 5 r)" by (simp add: init_swag_def)
    from run_epochs_warmup[OF this]
    show "case run_epochs (init_swag p 5 r) ?calls of
          (e, st5) \<Rightarrow> e = None \<and> mean st5 = replicate 2000 (PyFloat 0)
                     \<and> moments st5 = replicate 2000 (PyFloat 0)"
      by (simp add: init_swag_def case_prod_beta del: run_epochs.simps)
  qed
qed

text \<open>
  Epochs 3 and 4 of a callback with the default \<open>start = 160\<close>.
\<close>

theorem warmup_leaves_moments_witness:
  "(3::int) < start (init_swag ''swag'' 160 139)
   \<and> (4::int) < start (init_swag ''swag'' 160 139)
   \<and> fst (on_epoch_end (init_swag ''swag'' 160 139) 3 [[1, 2]]) = None
   \<and> mean (snd (on_epoch_end (init_swag ''swag'' 160 139) 3 [[1, 2]])) = replicate 2000 (PyFloat 0)
   \<and> moments (snd (run_epochs (init_swag ''swag'' 160 139) [(3, [[1, 2]]), (4, [[5, 6]])]))
        = replicate 2000 (PyFloat 0)"
proof -
  have lt: "(3::int) < start (init_swag ''swag'' 160 139)" by (simp add: init_swag_def)
  have all: "\<forall>c\<in>set [(3, [[1, 2]]), (4, [[5, 6]])]. fst c < start (init_swag ''swag'' 160 139)"
    by (simp add: init_swag_def)
  have m0: "mean (init_swag ''swag'' 160 139) = replicate 2000 (PyFloat 0)"
    and mo0: "moments (init_swag ''swag'' 160 139) = replicate 2000 (PyFloat 0)"
    by (simp_all add: init_swag_def)
  from warmup_leaves_moments[of 3 "init_swag ''swag'' 160 139" "[[1, 2]]" "[(3, [[1, 2]]), (4, [[5, 6]])]"]
    lt all m0 mo0
  show ?thesis by simp
qed

text \<open>
  Claim C3, as amended: for a rank that is not negative. A call of \<open>on_epoch_end\<close> on a
  buffer of at most \<open>rank\<close> entries leaves at most \<open>rank\<close> entries, and so every run from a
  fresh callback does. A call with \<open>epoch \<ge> start\<close> that returns appends one snapshot at the
  end and, if the buffer is then longer than \<open>rank\<close>, drops the entry at the front, the
  oldest. The snapshot has one array for each component of the mean as this call updated
  it, of the size of that component, and each of its elements is the parameter minus the
  element of the updated mean. With \<open>rank = 2\<close>, after five accumulating epochs of a fresh
  callback that return, whatever the weights, the buffer holds exactly the snapshot the
  fourth call appended and the snapshot the fifth call appended, in this order; for the
  snapshots 1, 3, 5, 7, 9 from epoch 0 on these are the deviations 3 and 4.
\<close>

theorem deviation_buffer_fifo:
  "(0 \<le> rank st \<and> int (length (cols st)) \<le> rank st \<longrightarrow>
      int (length (cols (snd (on_epoch_end st epoch ws)))) \<le> rank st)
   \<and> (0 \<le> r \<longrightarrow> int (length (cols (snd (run_epochs (init_swag p s r) calls)))) \<le> r)
   \<and> (on_epoch_end st epoch ws = (None, st') \<and> start st \<le> epoch \<longrightarrow>
        (\<exists>c. comprehension col_elem (zip (mean st') ws) = Inr c
            \<and> cols st' = (if int (length (cols st @ [c])) > rank st
                          then tl (cols st @ [c]) else cols st @ [c])
            \<and> length c = length (mean st')
            \<and> (\<forall>i<length c. \<exists>zs ys. mean st' ! i = NdArray zs \<and> c ! i = NdArray ys
                  \<and> length ys = length zs
                  \<and> (\<forall>j<length ys. ys ! j = elem_at (NdArray (ws ! i)) j - zs ! j))))
   \<and> (on_epoch_end (init_swag q s0 2) e1 w1 = (None, t1) \<and> s0 \<le> e1
        \<and> on_epoch_end t1 e2 w2 = (None, t2) \<and> s0 \<le> e2
        \<and> on_epoch_end t2 e3 w3 = (None, t3) \<and> s0 \<le> e3
        \<and> on_epoch_end t3 e4 w4 = (None, t4) \<and> s0 \<le> e4
        \<and> on_epoch_end t4 e5 w5 = (None, t5) \<and> s0 \<le> e5 \<longrightarrow>
        (\<exists>a b. comprehension col_elem (zip (mean t4) w4) = Inr a
            \<and> comprehension col_elem (zip (mean t5) w5) = Inr b
            \<and> cols t5 = [a, b]))
   \<and> (\<forall>v. cols (snd (run_epochs (init_swag v 0 2) [(0, [[1]]), (1, [[3]]), (2, [[5]])]))
             = [[NdArray [1]], [NdArray [2]]]
         \<and> cols (snd (run_epochs (init_swag v 0 2) [(0, [[1]]), (1, [[3]]), (2, [[5]]), (3, [[7]])]))
             = [[NdArray [2]], [NdArray [3]]]
         \<and> run_epochs (init_swag v 0 2) [(0, [[1]]), (1, [[3]]), (2, [[5]]), (3, [[7]]), (4, [[9]])]
             = (None, \<lparr>mean = [NdArray [5]], moments = [NdArray [33]], rank = 2, start = 0,
                       output_prefix = v, cols = [[NdArray [3]], [NdArray [4]]]\<rparr>))"
proof (intro conjI)
  show "0 \<le> rank st \<and> int (length (cols st)) \<le> rank st \<longrightarrow>
      int (length (cols (snd (on_epoch_end st epoch ws)))) \<le> rank st"
    using on_epoch_end_cols_bound[of st epoch ws] by blast
  show "0 \<le> r \<longrightarrow> int (length (cols (snd (run_epochs (init_swag p s r) calls)))) \<le> r"
    using run_epochs_cols_bound[of "init_swag p s r" calls] by (simp add: init_swag_def)
  show "on_epoch_end st epoch ws = (None, st') \<and> start st \<le> epoch \<longrightarrow>
        (\<exists>c. comprehension col_elem (zip (mean st') ws) = Inr c
            \<and> cols st' = (if int (length (cols st @ [c])) > rank st
                          then tl (cols st @ [c]) else cols st @ [c])
            \<and> length c = length (mean st')
            \<and> (\<forall>i<length c. \<exists>zs ys. mean st' ! i = NdArray zs \<and> c ! i = NdArray ys
                  \<and> length ys = length zs
                  \<and> (\<forall>j<length ys. ys ! j = elem_at (NdArray (ws ! i)) j - zs ! j)))"
    using on_epoch_end_cols[of st epoch ws st'] by blast
  show "on_epoch_end (init_swag q s0 2) e1 w1 = (None, t1) \<and> s0 \<le> e1
        \<and> on_epoch_end t1 e2 w2 = (None, t2) \<and> s0 \<le> e2
        \<and> on_epoch_end t2 e3 w3 = (None, t3) \<and> s0 \<le> e3
        \<and> on_epoch_end t3 e4 w4 = (None, t4) \<and> s0 \<le> e4
        \<and> on_epoch_end t4 e5 w5 = (None, t5) \<and> s0 \<le> e5 \<longrightarrow>
        (\<exists>a b. comprehension col_elem (zip (mean t4) w4) = Inr a
            \<and> comprehension col_elem (zip (mean t5) w5) = Inr b
            \<and> cols t5 = [a, b])"
    using five_accumulating_epochs[of q s0 e1 w1 t1 e2 w2 t2 e3 w3 t3 e4 w4 t4 e5 w5 t5] by blast
  show "\<forall>v. cols (snd (run_epochs (init_swag v 0 2) [(0, [[1]]), (1, [[3]]), (2, [[5]])]))
             = [[NdArray [1]], [NdArray [2]]]
         \<and> cols (snd (run_epochs (init_swag v 0 2) [(0, [[1]]), (1, [[3]]), (2, [[5]]), (3, [[7]])]))
             = [[NdArray [2]], [NdArray [3]]]
         \<and> run_epochs (init_swag v 0 2) [(0, [[1]]), (1, [[3]]), (2, [[5]]), (3, [[7]]), (4, [[9]])]
             = (None, \<lparr>mean = [NdArray [5]], moments = [NdArray [33]], rank = 2, start = 0,
                       output_prefix = v, cols = [[NdArray [3]], [NdArray [4]]]\<rparr>)"
    using five_epochs four_epochs
    by (simp add: on_epoch_end_def init_swag_def zip_replicate1 mean_elem_def moment_elem_def
      col_elem_def Let_def evict_def)
qed

lemma five_steps_eval:
  "on_epoch_end (init_swag ''swag'' 0 2) 0 [[1]] =
     (None, \<lparr>mean = [NdArray [1]], moments = [NdArray [1]], rank = 2, start = 0,
             output_prefix = ''swag'', cols = [[NdArray [0]]]\<rparr>)"
  "on_epoch_end \<lparr>mean = [NdArray [1]], moments = [NdArray [1]], rank = 2, start = 0,
             output_prefix = ''swag'', cols = [[NdArray [0]]]\<rparr> 1 [[3]] =
     (None, \<lparr>mean = [NdArray [2]], moments = [NdArray [5]], rank = 2, start = 0,
             output_prefix = ''swag'', cols = [[NdArray [0]], [NdArray [1]]]\<rparr>)"
  "on_epoch_end \<lparr>mean = [NdArray [2]], moments = [NdArray [5]], rank = 2, start = 0,
             output_prefix = ''swag'', cols = [[NdArray [0]], [NdArray [1]]]\<rparr> 2 [[5]] =
     (None, \<lparr>mean = [NdArray [3]], moments = [NdArray [35 / 3]], rank = 2, start = 0,
             output_prefix = ''swag'', cols = [[NdArray [1]], [NdArray [2]]]\<rparr>)"
  "on_epoch_end \<lparr>mean = [NdArray [3]], moments = [NdArray [35 / 3]], rank = 2, start = 0,
             output_prefix = ''swag'', cols = [[NdArray [1]], [NdArray [2]]]\<rparr> 3 [[7]] =
     (None, \<lparr>mean = [NdArray [4]], moments = [NdArray [21]], rank = 2, start = 0,
             output_prefix = ''swag'', cols = [[NdArray [2]], [NdArray [3]]]\<rparr>)"
  "on_epoch_end \<lparr>mean = [NdArray [4]], moments = [NdArray [21]], rank = 2, start = 0,
             output_prefix = ''swag'', cols = [[NdArray [2]], [NdArray [3]]]\<rparr> 4 [[9]] =
     (None, \<lparr>mean = [NdArray [5]], moments = [NdArray [33]], rank = 2, start = 0,
             output_prefix = ''swag'', cols = [[NdArray [3]], [NdArray [4]]]\<rparr>)"
  by (simp_all add: on_epoch_end_def init_swag_def zip_replicate1 mean_elem_def moment_elem_def
      col_elem_def Let_def evict_def)

text \<open>
  The five epochs 0 to 4 of a fresh callback of rank 2 on the snapshots 1, 3, 5, 7, 9,
  call by call: the third call meets a full buffer and drops its front, and after the
  fifth the buffer holds the snapshots of the fourth and the fifth call.
\<close>

theorem deviation_buffer_fifo_witness:
  "0 \<le> rank \<lparr>mean = [NdArray [2]], moments = [NdArray [5]], rank = 2, start = 0,
               output_prefix = ''swag'', cols = [[NdArray [0]], [NdArray [1]]]\<rparr>
   \<and> int (length (cols \<lparr>mean = [NdArray [2]], moments = [NdArray [5]], rank = 2, start = 0,
               output_prefix = ''swag'', cols = [[NdArray [0]], [NdArray [1]]]\<rparr>)) \<le> 2
   \<and> on_epoch_end \<lparr>mean = [NdArray [2]], moments = [NdArray [5]], rank = 2, start = 0,
               output_prefix = ''swag'', cols = [[NdArray [0]], [NdArray [1]]]\<rparr> 2 [[5]]
       = (None, \<lparr>mean = [NdArray [3]], moments = [NdArray [35 / 3]], rank = 2, start = 0,
               output_prefix = ''swag'', cols = [[NdArray [1]], [NdArray [2]]]\<rparr>)
   \<and> int (length (cols (snd (on_epoch_end \<lparr>mean = [NdArray [2]], moments = [NdArray [5]],
               rank = 2, start = 0, output_prefix = ''swag'',
               cols = [[NdArray [0]], [NdArray [1]]]\<rparr> 2 [[5]])))) \<le> 2
   \<and> int (length (cols (snd (run_epochs (init_swag ''swag'' 0 2) [(0, [[1]]), (1, [[3]])])))) \<le> 2
   \<and> (\<exists>a b. comprehension col_elem (zip [NdArray [4]] [[7]]) = Inr a
          \<and> comprehension col_elem (zip [NdArray [5]] [[9]]) = Inr b
          \<and> a = [NdArray [3]] \<and> b = [NdArray [4]]
          \<and> cols \<lparr>mean = [NdArray [5]], moments = [NdArray [33]], rank = 2, start = 0,
                   output_prefix = ''swag'', cols = [[NdArray [3]], [NdArray [4]]]\<rparr> = [a, b])"
proof -
  let ?T1 = "\<lparr>mean = [NdArray [1]], moments = [NdArray [1]], rank = 2, start = 0,
             output_prefix = ''swag'', cols = [[NdArray [0]]]\<rparr>"
  let ?T2 = "\<lparr>mean = [NdArray [2]], moments = [NdArray [5]], rank = 2, start = 0,
             output_prefix = ''swag'', cols = [[NdArray [0]], [NdArray [1]]]\<rparr>"
  let ?T3 = "\<lparr>mean = [NdArray [3]], moments = [NdArray [35 / 3]], rank = 2, start = 0,
             output_prefix = ''swag'', cols = [[NdArray [1]], [NdArray [2]]]\<rparr>"
  let ?T4 = "\<lparr>mean = [NdArray [4]], moments = [NdArray [21]], rank = 2, start = 0,
             output_prefix = ''swag'', cols = [[NdArray [2]], [NdArray [3]]]\<rparr>"
  let ?T5 = "\<lparr>mean = [NdArray [5]], moments = [NdArray [33]], rank = 2, start = 0,
             output_prefix = ''swag'', cols = [[NdArray [3]], [NdArray [4]]]\<rparr>"
  note T = deviation_buffer_fifo[of ?T2 2 "[[5]]" 2 "''swag''" 0 "[(0, [[1]]), (1, [[3]])]" ?T3
      "''swag''" 0 0 "[[1]]" ?T1 1 "[[3]]" ?T2 2 "[[5]]" ?T3 3 "[[7]]" ?T4 4 "[[9]]" ?T5]
  have pre: "0 \<le> rank ?T2 \<and> int (length (cols ?T2)) \<le> rank ?T2" by simp
  have bound1: "int (length (cols (snd (on_epoch_end ?T2 2 [[5]])))) \<le> rank ?T2"
    using T[THEN conjunct1, THEN mp, OF pre] .
  have bound2: "int (length (cols (snd (run_epochs (init_swag ''swag'' 0 2)
                   [(0, [[1]]), (1, [[3]])])))) \<le> 2"
    using T[THEN conjunct2, THEN conjunct1] by simp
  have chain: "on_epoch_end (init_swag ''swag'' 0 2) 0 [[1]] = (None, ?T1) \<and> (0::int) \<le> 0
        \<and> on_epoch_end ?T1 1 [[3]] = (None, ?T2) \<and> (0::int) \<le> 1
        \<and> on_epoch_end ?T2 2 [[5]] = (None, ?T3) \<and> (0::int) \<le> 2
        \<and> on_epoch_end ?T3 3 [[7]] = (None, ?T4) \<and> (0::int) \<le> 3
        \<and> on_epoch_end ?T4 4 [[9]] = (None, ?T5) \<and> (0::int) \<le> 4"
    using five_steps_eval by simp
  from T[THEN conjunct2, THEN conjunct2, THEN conjunct2, THEN conjunct1, THEN mp, OF chain]
  obtain a b where a: "comprehension col_elem (zip (mean ?T4) [[7]]) = Inr a"
    and b: "comprehension col_elem (zip (mean ?T5) [[9]]) = Inr b"
    and ab: "cols ?T5 = [a, b]" by blast
  from ab have "a = [NdArray [3]]" "b = [NdArray [4]]" by simp_all
  with a b ab have "\<exists>a b. comprehension col_elem (zip [NdArray [4]] [[7]]) = Inr a
          \<and> comprehension col_elem (zip [NdArray [5]] [[9]]) = Inr b
          \<and> a = [NdArray [3]] \<and> b = [NdArray [4]] \<and> cols ?T5 = [a, b]"
    by simp
  then show ?thesis using bound1 bound2 five_steps_eval(3) by simp
qed

text \<open>
  Claim C3 as stated fails for a negative rank, which the constructor accepts: with
  \<open>rank = -1\<close> the call appends a snapshot and drops it again, and the empty buffer it
  leaves is longer than the rank.
\<close>

theorem deviation_buffer_negative_rank_counterexample:
  "cols (snd (on_epoch_end (init_swag ''swag'' 0 (- 1)) 0 [[1]])) = []
   \<and> \<not> int (length (cols (snd (on_epoch_end (init_swag ''swag'' 0 (- 1)) 0 [[1]]))))
         \<le> rank (init_swag ''swag'' 0 (- 1))"
  by (simp add: on_epoch_end_def init_swag_def zip_replicate1 mean_elem_def moment_elem_def
      col_elem_def Let_def evict_def)

section \<open>Properties of saving the statistics\<close>

lemma comprehension_replicate_fail:
  "f x = Inl e \<Longrightarrow> 0 < n \<Longrightarrow> comprehension f (replicate n x) = Inl e"
  by (cases n) simp_all

lemma can_open_other_file:
  "p \<noteq> q \<Longrightarrow> can_open (fs\<lparr>files := (files fs)(q \<mapsto> c)\<rparr>) p = can_open fs p"
  by (simp add: can_open_def split: option.splits)

text \<open>
  On a device with space for the three files, and a state on which \<open>tolist\<close> and the
  diagonal succeed, \<open>on_train_end\<close> opens the three files in turn: it raises OSError at the
  first that cannot be opened, the files written before it stay, and it returns when all
  three are written.
\<close>

lemma on_train_end_serializable:
  assumes a: "tolist_all (mean st) = Inr a" and d: "diag st = Inr d"
    and b: "tolist_all d = Inr b" and c: "tolist_cols (cols st) = Inr c"
    and sp: "output_prefix st @ ''_mean.json'' \<notin> no_space dev"
            "output_prefix st @ ''_diag.json'' \<notin> no_space dev"
            "output_prefix st @ ''_cols.json'' \<notin> no_space dev"
  shows "on_train_end dev st fs =
     (if \<not> can_open fs (output_prefix st @ ''_mean.json'') then (Some OSError, fs)
      else if \<not> can_open fs (output_prefix st @ ''_diag.json'')
        then (Some OSError, fs\<lparr>files := (files fs)(output_prefix st @ ''_mean.json'' \<mapsto> Json a)\<rparr>)
      else if \<not> can_open fs (output_prefix st @ ''_cols.json'')
        then (Some OSError, fs\<lparr>files := (files fs)(output_prefix st @ ''_mean.json'' \<mapsto> Json a,
                                                      output_prefix st @ ''_diag.json'' \<mapsto> Json b)\<rparr>)
      else (None, fs\<lparr>files := (files fs)(output_prefix st @ ''_mean.json'' \<mapsto> Json a,
                                          output_prefix st @ ''_diag.json'' \<mapsto> Json b,
                                          output_prefix st @ ''_cols.json'' \<mapsto> Json c)\<rparr>))"
proof -
  let ?pm = "output_prefix st @ ''_mean.json''"
  let ?pd = "output_prefix st @ ''_diag.json''"
  let ?pc = "output_prefix st @ ''_cols.json''"
  let ?fs1 = "fs\<lparr>files := (files fs)(?pm \<mapsto> Json a)\<rparr>"
  have o1: "can_open ?fs1 ?pd = can_open fs ?pd" by (rule can_open_other_file) simp
  have "can_open (?fs1\<lparr>files := (files ?fs1)(?pd \<mapsto> Json b)\<rparr>) ?pc = can_open ?fs1 ?pc"
    by (rule can_open_other_file) simp
  also have "can_open ?fs1 ?pc = can_open fs ?pc" by (rule can_open_other_file) simp
  finally have o2: "can_open (?fs1\<lparr>files := (files ?fs1)(?pd \<mapsto> Json b)\<rparr>) ?pc = can_open fs ?pc" .
  show ?thesis
    using a d b c sp o1 o2 by (simp add: on_train_end_def json_dump_def)
qed

text \<open>
  Claim C5, at the state it fails on. A callback that has not accumulated yet (a fresh one,
  or one whose training ended before epoch \<open>start\<close>) still holds Python floats in
  \<open>self.mean\<close>; \<open>p.tolist()\<close> raises AttributeError on the first of them, before any file
  is opened, so \<open>on_train_end\<close> writes nothing.
\<close>

theorem on_train_end_fresh_raises:
  "on_train_end dev (init_swag p s r) fs = (Some AttributeError, fs)"
proof -
  have "comprehension tolist (replicate 2000 (PyFloat 0)) = Inl AttributeError"
    by (rule comprehension_replicate_fail) simp_all
  then show ?thesis by (simp add: on_train_end_def tolist_all_def init_swag_def)
qed

text \<open>
  Claim C7, at an input it fails on. A callback after one epoch on one array of two
  weights is saved under \<open>out/swag\<close> on a disk that runs out of space once the first file
  is written; the three documents are small and stay in the buffers of their file
  objects. The data of the second and the third file cannot be written when Python
  finalizes the files, and these exceptions are ignored: \<open>on_train_end\<close> returns without
  an exception, the mean is on the disk, and the files of the diagonal and of the
  deviation buffer are empty.
\<close>

theorem on_train_end_lost_write:
  "on_train_end
     \<lparr>no_space = {''out/swag_diag.json'', ''out/swag_cols.json''}, in_buffer = (\<lambda>doc. True)\<rparr>
     \<lparr>mean = [NdArray [4, 6]], moments = [NdArray [16, 36]], rank = 2, start = 0,
      output_prefix = ''out/swag'', cols = [[NdArray [0, 0]]]\<rparr>
     \<lparr>files = Map.empty, dirs = {''out''}, readonly = {}\<rparr>
   = (None,
      \<lparr>files = [''out/swag_mean.json'' \<mapsto> Json (JArr [JArr [JNum 4, JNum 6]]),
                ''out/swag_diag.json'' \<mapsto> Text [],
                ''out/swag_cols.json'' \<mapsto> Text []],
       dirs = {''out''}, readonly = {}\<rparr>)"
  by (simp add: on_train_end_def json_dump_def can_open_def dirname_def tolist_all_def
      tolist_cols_def diag_def diag_elem_def)

section \<open>Properties of the step tracker\<close>

lemma cr_force_set_cmd [simp]: "cr_force (set_cmd cr name) = cr_force cr"
  by (simp add: set_cmd_def)

lemma cr_write_existing:
  "files fs (marker_path cr) \<noteq> None \<Longrightarrow> cr_write cr fs = (None, fs)"
  by (simp add: cr_write_def)

lemma cr_write_None:
  assumes "cr_write cr fs = (None, fs1)"
  shows "files fs1 (marker_path cr) \<noteq> None"
  using assms by (auto simp: cr_write_def split: if_splits)

lemma cr_write_creates:
  assumes "cr_write cr fs = (None, fs1)" and "files fs (marker_path cr) = None"
  shows "fs1 = fs\<lparr>files := (files fs)(marker_path cr \<mapsto> Text []),
                   dirs := dirs fs \<union> set (parents (marker_path cr))\<rparr>"
  using assms by (auto simp: cr_write_def split: if_splits)

text \<open>
  Claim C2. \<open>done\<close> is true iff the marker of the selected step exists and force was not
  requested. With force, \<open>done\<close> is false for every step and every file system. \<open>done\<close>
  only reads the file system, so it deletes nothing: after a marker was written without
  force, a forced tracker of the same job answers false for that step and the marker is
  still there, so that the tracker without force still answers true.
\<close>

theorem done_iff_marker_and_not_forced:
  "cr_done (set_cmd cr name) fs
     = (files fs (marker_path (set_cmd cr name)) \<noteq> None \<and> \<not> cr_force cr)
   \<and> (cr_force cr \<longrightarrow> \<not> cr_done (set_cmd cr name) fs)
   \<and> (\<not> cr_force cr \<and> cr_write (set_cmd cr name) fs = (None, fs1) \<longrightarrow>
        \<not> cr_done (set_cmd (cr\<lparr>cr_force := True\<rparr>) name) fs1
        \<and> files fs1 (marker_path (set_cmd cr name)) \<noteq> None
        \<and> cr_done (set_cmd cr name) fs1)"
proof (intro conjI impI)
  show "cr_done (set_cmd cr name) fs
     = (files fs (marker_path (set_cmd cr name)) \<noteq> None \<and> \<not> cr_force cr)"
    by (simp add: cr_done_def)
  show "cr_force cr \<Longrightarrow> \<not> cr_done (set_cmd cr name) fs"
    by (simp add: cr_done_def)
next
  assume h: "\<not> cr_force cr \<and> cr_write (set_cmd cr name) fs = (None, fs1)"
  then have m: "files fs1 (marker_path (set_cmd cr name)) \<noteq> None"
    using cr_write_None by blast
  show "\<not> cr_done (set_cmd (cr\<lparr>cr_force := True\<rparr>) name) fs1"
    by (simp add: cr_done_def)
  show "files fs1 (marker_path (set_cmd cr name)) \<noteq> None" by (rule m)
  show "cr_done (set_cmd cr name) fs1" using h m by (simp add: cr_done_def)
qed

text \<open>
  The step \<open>modisco_plot\<close> of the job \<open>modisco_report_all\<close> in the directory \<open>out\<close>, marked by
  a tracker without force and then asked by a forced one.
\<close>

theorem done_iff_marker_and_not_forced_witness:
  "cr_force (conditional_run ''modisco_report_all'' None ''out'' True)
   \<and> \<not> cr_done (set_cmd (conditional_run ''modisco_report_all'' None ''out'' True) ''modisco_plot'')
          \<lparr>files = [''out/.modisco_report_all/modisco_plot.done'' \<mapsto> Text []],
           dirs = {''out'', ''out/.modisco_report_all''}, readonly = {}\<rparr>
   \<and> \<not> cr_force (conditional_run ''modisco_report_all'' None ''out'' False)
   \<and> fst (cr_write (set_cmd (conditional_run ''modisco_report_all'' None ''out'' False) ''modisco_plot'')
          \<lparr>files = Map.empty, dirs = {''out''}, readonly = {}\<rparr>) = None
   \<and> \<not> cr_done (set_cmd ((conditional_run ''modisco_report_all'' None ''out'' False)\<lparr>cr_force := True\<rparr>)
             ''modisco_plot'')
          (snd (cr_write (set_cmd (conditional_run ''modisco_report_all'' None ''out'' False) ''modisco_plot'')
             \<lparr>files = Map.empty, dirs = {''out''}, readonly = {}\<rparr>))
   \<and> cr_done (set_cmd (conditional_run ''modisco_report_all'' None ''out'' False) ''modisco_plot'')
          (snd (cr_write (set_cmd (conditional_run ''modisco_report_all'' None ''out'' False) ''modisco_plot'')
             \<lparr>files = Map.empty, dirs = {''out''}, readonly = {}\<rparr>))"
proof -
  let ?T = "conditional_run ''modisco_report_all'' None ''out'' True"
  let ?F = "conditional_run ''modisco_report_all'' None ''out'' False"
  let ?fs0 = "\<lparr>files = Map.empty, dirs = {''out''}, readonly = {}\<rparr> :: filesys"
  let ?fsm = "\<lparr>files = [''out/.modisco_report_all/modisco_plot.done'' \<mapsto> Text []],
           dirs = {''out'', ''out/.modisco_report_all''}, readonly = {}\<rparr>"
  have f: "cr_force ?T" "\<not> cr_force ?F" by (simp_all add: conditional_run_def)
  have w: "fst (cr_write (set_cmd ?F ''modisco_plot'') ?fs0) = None"
    by (simp add: cr_write_def marker_path_def set_cmd_def conditional_run_def)
  then have w': "cr_write (set_cmd ?F ''modisco_plot'') ?fs0
               = (None, snd (cr_write (set_cmd ?F ''modisco_plot'') ?fs0))"
    by (metis prod.collapse)
  from done_iff_marker_and_not_forced[of ?T "''modisco_plot''" ?fsm]
       done_iff_marker_and_not_forced[of ?F "''modisco_plot''" ?fs0
          "snd (cr_write (set_cmd ?F ''modisco_plot'') ?fs0)"]
       f w w'
  show ?thesis by blast
qed

text \<open>
  Claim C6. \<open>write\<close> for a step whose marker exists changes nothing and does not raise.
  After a \<open>write\<close> that returned, a second \<open>write\<close> on the same step returns and changes
  nothing, and \<open>done\<close> is true for a tracker without force. A \<open>write\<close> that creates the
  marker creates it as an empty file and leaves every directory above its path in
  existence.
\<close>

theorem write_idempotent_creates_parents:
  "(files fs (marker_path cr) \<noteq> None \<longrightarrow> cr_write cr fs = (None, fs))
   \<and> (cr_write cr fs = (None, fs1) \<longrightarrow>
        cr_write cr fs1 = (None, fs1) \<and> (\<not> cr_force cr \<longrightarrow> cr_done cr fs1))
   \<and> (cr_write cr fs = (None, fs1) \<and> files fs (marker_path cr) = None \<longrightarrow>
        files fs1 (marker_path cr) = Some (Text [])
        \<and> set (parents (marker_path cr)) \<subseteq> dirs fs1
        \<and> dirs fs \<subseteq> dirs fs1)"
proof (intro conjI impI)
  assume "files fs (marker_path cr) \<noteq> None"
  then show "cr_write cr fs = (None, fs)" by (rule cr_write_existing)
next
  assume w: "cr_write cr fs = (None, fs1)"
  from cr_write_None[OF w] show "cr_write cr fs1 = (None, fs1)" by (rule cr_write_existing)
  assume "\<not> cr_force cr"
  with cr_write_None[OF w] show "cr_done cr fs1" by (simp add: cr_done_def)
next
  assume h: "cr_write cr fs = (None, fs1) \<and> files fs (marker_path cr) = None"
  then have eq: "fs1 = fs\<lparr>files := (files fs)(marker_path cr \<mapsto> Text []),
                   dirs := dirs fs \<union> set (parents (marker_path cr))\<rparr>"
    using cr_write_creates by blast
  show "files fs1 (marker_path cr) = Some (Text [])" using eq by simp
  show "set (parents (marker_path cr)) \<subseteq> dirs fs1" using eq by simp
  show "dirs fs \<subseteq> dirs fs1" using eq by simp
qed

lemma parents_marker_example:
  "parents ''out/.modisco_report_all/modisco_plot.done'' = [''out/.modisco_report_all'', ''out'', []]"
  by (simp add: parents.simps dirname_def)

text \<open>
  The step \<open>modisco_plot\<close> of the job \<open>modisco_report_all\<close> in a directory \<open>out\<close> that does not
  exist yet: the first \<open>write\<close> creates \<open>out\<close> and \<open>out/.modisco_report_all\<close>.
\<close>

theorem write_idempotent_creates_parents_witness:
  "cr_write (set_cmd (conditional_run ''modisco_report_all'' None ''out'' False) ''modisco_plot'')
      \<lparr>files = Map.empty, dirs = {[]}, readonly = {}\<rparr>
     = (None, \<lparr>files = [''out/.modisco_report_all/modisco_plot.done'' \<mapsto> Text []],
               dirs = {[], ''out/.modisco_report_all'', ''out''}, readonly = {}\<rparr>)
   \<and> files \<lparr>files = Map.empty, dirs = {[]}, readonly = {}\<rparr>
        (marker_path (set_cmd (conditional_run ''modisco_report_all'' None ''out'' False) ''modisco_plot''))
      = None
   \<and> cr_write (set_cmd (conditional_run ''modisco_report_all'' None ''out'' False) ''modisco_plot'')
        \<lparr>files = [''out/.modisco_report_all/modisco_plot.done'' \<mapsto> Text []],
         dirs = {[], ''out/.modisco_report_all'', ''out''}, readonly = {}\<rparr>
     = (None, \<lparr>files = [''out/.modisco_report_all/modisco_plot.done'' \<mapsto> Text []],
               dirs = {[], ''out/.modisco_report_all'', ''out''}, readonly = {}\<rparr>)
   \<and> cr_done (set_cmd (conditional_run ''modisco_report_all'' None ''out'' False) ''modisco_plot'')
        \<lparr>files = [''out/.modisco_report_all/modisco_plot.done'' \<mapsto> Text []],
         dirs = {[], ''out/.modisco_report_all'', ''out''}, readonly = {}\<rparr>
   \<and> ''out/.modisco_report_all'' \<in> set (parents (marker_path
        (set_cmd (conditional_run ''modisco_report_all'' None ''out'' False) ''modisco_plot'')))"
proof -
  let ?cr = "set_cmd (conditional_run ''modisco_report_all'' None ''out'' False) ''modisco_plot''"
  let ?fs0 = "\<lparr>files = Map.empty, dirs = {[]}, readonly = {}\<rparr> :: filesys"
  let ?fs1 = "\<lparr>files = [''out/.modisco_report_all/modisco_plot.done'' \<mapsto> Text []],
               dirs = {[], ''out/.modisco_report_all'', ''out''}, readonly = {}\<rparr>"
  have mp: "marker_path ?cr = ''out/.modisco_report_all/modisco_plot.done''"
    by (simp add: marker_path_def set_cmd_def conditional_run_def)
  have nf: "\<not> cr_force ?cr" by (simp add: conditional_run_def)
  have od: "cr_output_dir ?cr = ''out''" by (simp add: conditional_run_def set_cmd_def)
  have ds: "insert [] (set (parents ''out/.modisco_report_all/modisco_plot.done''))
            = {[], ''out/.modisco_report_all'', ''out''}"
    unfolding parents_marker_example by auto
  have w: "cr_write ?cr ?fs0 = (None, ?fs1)"
    by (simp add: cr_write_def mp od ds)
  have m0: "files ?fs0 (marker_path ?cr) = None" by simp
  from write_idempotent_creates_parents[of ?fs0 ?cr ?fs1] w m0 nf mp parents_marker_example
  show ?thesis by simp
qed

section \<open>Properties of the report pipeline\<close>

lemma touch_ok:
  "can_open fs p \<Longrightarrow>
   touch p fs = (None, fs\<lparr>files := (files fs)(p \<mapsto> (case files fs p of None \<Rightarrow> Text [] | Some c \<Rightarrow> c))\<rparr>)"
  by (cases "files fs p") (auto simp: touch_def fun_upd_idem)

lemma can_open_other:
  "p \<noteq> q \<Longrightarrow> can_open (fs\<lparr>files := (files fs)(q \<mapsto> c)\<rparr>) p = can_open fs p"
  by (simp add: can_open_def split: option.splits)

lemma two_touches:
  assumes o1: "can_open fs h" and o2: "can_open fs b" and ne: "h \<noteq> b"
  shows "block [on_fs (touch h), on_fs (touch b)] (fs, []) =
     (None,
      (fs\<lparr>files := (files fs)
          (h \<mapsto> (case files fs h of None \<Rightarrow> Text [] | Some c \<Rightarrow> c),
           b \<mapsto> (case files fs b of None \<Rightarrow> Text [] | Some c \<Rightarrow> c))\<rparr>,
       []))"
proof -
  let ?fs1 = "fs\<lparr>files := (files fs)(h \<mapsto> (case files fs h of None \<Rightarrow> Text [] | Some c \<Rightarrow> c))\<rparr>"
  have t1: "touch h fs = (None, ?fs1)" by (rule touch_ok[OF o1])
  have "can_open ?fs1 b = can_open fs b" using ne by (intro can_open_other) simp
  then have o2': "can_open ?fs1 b" using o2 by simp
  have fb: "files ?fs1 b = files fs b" using ne by simp
  have t2: "touch b ?fs1 =
      (None, ?fs1\<lparr>files := (files ?fs1)(b \<mapsto> (case files fs b of None \<Rightarrow> Text [] | Some c \<Rightarrow> c))\<rparr>)"
    using touch_ok[OF o2'] unfolding fb .
  show ?thesis using t1 t2 by (simp add: on_fs_def)
qed

lemma join_slash_snoc:
  "join_slash (ps @ [x]) = (if ps = [] then x else join_slash ps @ ''/'' @ x)"
  by (induction ps rule: join_slash.induct) auto

lemma last_path_str:
  assumes "x \<noteq> []"
  shows "last (path_str (r, ps @ [x])) = last x"
  using assms by (simp add: path_str_def join_slash_snoc)

lemma parts_results: "path_parts ''results.html'' = [''results.html'']"
  by (simp add: path_parts_def)

lemma parts_bed: "path_parts ''seqlets/scored_regions.bed'' = [''seqlets'', ''scored_regions.bed'']"
  by (simp add: path_parts_def)

lemma last_placeholders:
  "last (path_str (path_div p ''results.html'')) = CHR ''l''"
  "last (path_str (path_div p ''seqlets/scored_regions.bed'')) = CHR ''d''"
proof -
  have "path_div p ''results.html'' = (fst p, snd p @ [''results.html''])"
    by (simp add: path_div_def parts_results)
  then show "last (path_str (path_div p ''results.html'')) = CHR ''l''"
    using last_path_str[of "''results.html''" "fst p" "snd p"] by simp
  have "path_div p ''seqlets/scored_regions.bed''
          = (fst p, (snd p @ [''seqlets'']) @ [''scored_regions.bed''])"
    by (simp add: path_div_def parts_bed)
  then show "last (path_str (path_div p ''seqlets/scored_regions.bed'')) = CHR ''d''"
    using last_path_str[of "''scored_regions.bed''" "fst p" "snd p @ [''seqlets'']"] by simp
qed

lemma placeholders_differ:
  "path_str (path_div p ''results.html'') \<noteq> path_str (path_div p ''seqlets/scored_regions.bed'')"
proof
  assume "path_str (path_div p ''results.html'') = path_str (path_div p ''seqlets/scored_regions.bed'')"
  then have "last (path_str (path_div p ''results.html''))
               = last (path_str (path_div p ''seqlets/scored_regions.bed''))" by simp
  then show False unfolding last_placeholders by simp
qed

lemma marker_not_placeholder:
  "marker_path cr \<noteq> path_str (path_div p ''results.html'')
   \<and> marker_path cr \<noteq> path_str (path_div p ''seqlets/scored_regions.bed'')"
proof -
  have m: "last (marker_path cr) = CHR ''e''" by (simp add: marker_path_def)
  have "last (marker_path cr) \<noteq> last (path_str (path_div p ''results.html''))"
    and "last (marker_path cr) \<noteq> last (path_str (path_div p ''seqlets/scored_regions.bed''))"
    unfolding m last_placeholders by simp_all
  then show ?thesis by auto
qed

lemma no_patterns_branch:
  assumes kw: "read_contrib_file (Path modisco_dir) fs = Inr v"
    and pat: "mr_patterns env (path_str (Path modisco_dir) @ ''/modisco.h5'') fs = Inr []"
  shows "modisco_report_all env modisco_dir scan_instances force fs =
           block [on_fs (touch (path_str (path_div (Path modisco_dir) ''results.html''))),
                  on_fs (touch (path_str (path_div (Path modisco_dir) ''seqlets/scored_regions.bed'')))]
             (fs, [])"
  unfolding modisco_report_all_def Let_def using kw pat by simp

lemma no_patterns_result:
  assumes kw: "read_contrib_file (Path modisco_dir) fs = Inr v"
    and pat: "mr_patterns env (path_str (Path modisco_dir) @ ''/modisco.h5'') fs = Inr []"
    and o1: "can_open fs (path_str (path_div (Path modisco_dir) ''results.html''))"
    and o2: "can_open fs (path_str (path_div (Path modisco_dir) ''seqlets/scored_regions.bed''))"
  shows "modisco_report_all env modisco_dir scan_instances force fs =
     (None,
      (fs\<lparr>files := (files fs)
          (path_str (path_div (Path modisco_dir) ''results.html'') \<mapsto>
             (case files fs (path_str (path_div (Path modisco_dir) ''results.html'')) of
                None \<Rightarrow> Text [] | Some c \<Rightarrow> c),
           path_str (path_div (Path modisco_dir) ''seqlets/scored_regions.bed'') \<mapsto>
             (case files fs (path_str (path_div (Path modisco_dir) ''seqlets/scored_regions.bed'')) of
                None \<Rightarrow> Text [] | Some c \<Rightarrow> c))\<rparr>,
       []))"
  unfolding no_patterns_branch[OF kw pat]
  by (rule two_touches[OF o1 o2 placeholders_differ])

text \<open>
  Claim C10, as amended. The directory is the \<open>Path\<close> of the argument, so a trailing slash
  or an empty argument make no difference to the files named. If the kwargs file can be
  read, the modisco result has no pattern and both placeholder files can be opened for
  appending (each is writable if it exists, and can be created in its directory if it
  does not, so the directory \<open>seqlets\<close> exists then), \<open>modisco_report_all\<close> returns without
  an exception and without having executed a report step. Afterwards \<open>results.html\<close> and
  \<open>seqlets/scored_regions.bed\<close> exist: each is empty if it did not exist before and is
  unchanged otherwise. No other file changes, in particular no step marker is written,
  and no directory is created. The outcome does not depend on what the report steps or
  the loading of the contribution file would do.
\<close>

theorem no_patterns_touches_placeholders:
  "read_contrib_file (Path modisco_dir) fs = Inr v
   \<and> mr_patterns env (path_str (Path modisco_dir) @ ''/modisco.h5'') fs = Inr []
   \<and> can_open fs (path_str (path_div (Path modisco_dir) ''results.html''))
   \<and> can_open fs (path_str (path_div (Path modisco_dir) ''seqlets/scored_regions.bed'')) \<longrightarrow>
   (\<exists>fs'. modisco_report_all env modisco_dir scan_instances force fs = (None, (fs', []))
      \<and> files fs' (path_str (path_div (Path modisco_dir) ''results.html''))
          = Some (case files fs (path_str (path_div (Path modisco_dir) ''results.html'')) of
                    None \<Rightarrow> Text [] | Some c \<Rightarrow> c)
      \<and> files fs' (path_str (path_div (Path modisco_dir) ''seqlets/scored_regions.bed''))
          = Some (case files fs (path_str (path_div (Path modisco_dir) ''seqlets/scored_regions.bed'')) of
                    None \<Rightarrow> Text [] | Some c \<Rightarrow> c)
      \<and> (\<forall>q. q \<noteq> path_str (path_div (Path modisco_dir) ''results.html'')
              \<and> q \<noteq> path_str (path_div (Path modisco_dir) ''seqlets/scored_regions.bed'')
              \<longrightarrow> files fs' q = files fs q)
      \<and> (\<forall>name. files fs' (marker_path (set_cmd
                     (conditional_run ''modisco_report_all'' None (path_str (Path modisco_dir)) force)
                     name))
                 = files fs (marker_path (set_cmd
                     (conditional_run ''modisco_report_all'' None (path_str (Path modisco_dir)) force)
                     name)))
      \<and> dirs fs' = dirs fs \<and> readonly fs' = readonly fs
      \<and> modisco_report_all (env\<lparr>run_step := f, load_contribsf := g\<rparr>) modisco_dir
            scan_instances force fs = (None, (fs', [])))"
proof
  let ?html = "path_str (path_div (Path modisco_dir) ''results.html'')"
  let ?bed = "path_str (path_div (Path modisco_dir) ''seqlets/scored_regions.bed'')"
  let ?h5 = "path_str (Path modisco_dir) @ ''/modisco.h5''"
  assume hyp: "read_contrib_file (Path modisco_dir) fs = Inr v
   \<and> mr_patterns env ?h5 fs = Inr [] \<and> can_open fs ?html \<and> can_open fs ?bed"
  let ?fs' = "fs\<lparr>files := (files fs)
          (?html \<mapsto> (case files fs ?html of None \<Rightarrow> Text [] | Some c \<Rightarrow> c),
           ?bed \<mapsto> (case files fs ?bed of None \<Rightarrow> Text [] | Some c \<Rightarrow> c))\<rparr>"
  from hyp have kw: "read_contrib_file (Path modisco_dir) fs = Inr v"
    and pat: "mr_patterns env ?h5 fs = Inr []"
    and o1: "can_open fs ?html" and o2: "can_open fs ?bed" by simp_all
  have pat': "mr_patterns (env\<lparr>run_step := f, load_contribsf := g\<rparr>) ?h5 fs = Inr []"
    using pat by simp
  have r: "modisco_report_all env modisco_dir scan_instances force fs = (None, (?fs', []))"
    by (rule no_patterns_result[OF kw pat o1 o2])
  have r': "modisco_report_all (env\<lparr>run_step := f, load_contribsf := g\<rparr>) modisco_dir
            scan_instances force fs = (None, (?fs', []))"
    by (rule no_patterns_result[OF kw pat' o1 o2])
  have ne: "?html \<noteq> ?bed" by (rule placeholders_differ)
  have f1: "files ?fs' ?html = Some (case files fs ?html of None \<Rightarrow> Text [] | Some c \<Rightarrow> c)"
    using ne by simp
  have f2: "files ?fs' ?bed = Some (case files fs ?bed of None \<Rightarrow> Text [] | Some c \<Rightarrow> c)"
    by simp
  have f3: "\<forall>q. q \<noteq> ?html \<and> q \<noteq> ?bed \<longrightarrow> files ?fs' q = files fs q" by simp
  have f4: "\<forall>name. files ?fs' (marker_path (set_cmd
                     (conditional_run ''modisco_report_all'' None (path_str (Path modisco_dir)) force)
                     name))
                 = files fs (marker_path (set_cmd
                     (conditional_run ''modisco_report_all'' None (path_str (Path modisco_dir)) force)
                     name))"
    using f3 marker_not_placeholder by blast
  have f5: "dirs ?fs' = dirs fs \<and> readonly ?fs' = readonly fs" by simp
  show "\<exists>fs'. modisco_report_all env modisco_dir scan_instances force fs = (None, (fs', []))
      \<and> files fs' ?html = Some (case files fs ?html of None \<Rightarrow> Text [] | Some c \<Rightarrow> c)
      \<and> files fs' ?bed = Some (case files fs ?bed of None \<Rightarrow> Text [] | Some c \<Rightarrow> c)
      \<and> (\<forall>q. q \<noteq> ?html \<and> q \<noteq> ?bed \<longrightarrow> files fs' q = files fs q)
      \<and> (\<forall>name. files fs' (marker_path (set_cmd
                     (conditional_run ''modisco_report_all'' None (path_str (Path modisco_dir)) force)
                     name))
                 = files fs (marker_path (set_cmd
                     (conditional_run ''modisco_report_all'' None (path_str (Path modisco_dir)) force)
                     name)))
      \<and> dirs fs' = dirs fs \<and> readonly fs' = readonly fs
      \<and> modisco_report_all (env\<lparr>run_step := f, load_contribsf := g\<rparr>) modisco_dir
            scan_instances force fs = (None, (fs', []))"
    using r r' f1 f2 f3 f4 f5 by blast
qed

lemma paths_of_m:
  "path_str (Path ''m/'') = ''m''"
  "path_str (path_div (Path ''m/'') ''modisco-run.kwargs.json'') = ''m/modisco-run.kwargs.json''"
  "path_str (path_div (Path ''m/'') ''results.html'') = ''m/results.html''"
  "path_str (path_div (Path ''m/'') ''seqlets/scored_regions.bed'') = ''m/seqlets/scored_regions.bed''"
  "path_str (Path ''m'') = ''m''"
  "path_str (path_div (Path ''m'') ''modisco-run.kwargs.json'') = ''m/modisco-run.kwargs.json''"
  "path_str (path_div (Path ''m'') ''results.html'') = ''m/results.html''"
  "path_str (path_div (Path ''m'') ''seqlets/scored_regions.bed'') = ''m/seqlets/scored_regions.bed''"
  by (simp_all add: Path_def path_root_def path_parts_def path_div_def path_str_def)

text \<open>
  A modisco directory given as \<open>m/\<close>, with its kwargs file and an existing, empty
  \<open>seqlets\<close> directory: the run creates the two placeholder files \<open>m/results.html\<close> and
  \<open>m/seqlets/scored_regions.bed\<close>, empty, and no marker.
\<close>

theorem no_patterns_touches_placeholders_witness:
  "read_contrib_file (Path ''m/'')
      \<lparr>files = [''m/modisco-run.kwargs.json'' \<mapsto> Json (JObj [(''contrib_file'', JStr ''contrib.h5'')])],
       dirs = {''m'', ''m/seqlets''}, readonly = {}\<rparr> = Inr (JStr ''contrib.h5'')
   \<and> can_open
      \<lparr>files = [''m/modisco-run.kwargs.json'' \<mapsto> Json (JObj [(''contrib_file'', JStr ''contrib.h5'')])],
       dirs = {''m'', ''m/seqlets''}, readonly = {}\<rparr>
      (path_str (path_div (Path ''m/'') ''results.html''))
   \<and> can_open
      \<lparr>files = [''m/modisco-run.kwargs.json'' \<mapsto> Json (JObj [(''contrib_file'', JStr ''contrib.h5'')])],
       dirs = {''m'', ''m/seqlets''}, readonly = {}\<rparr>
      (path_str (path_div (Path ''m/'') ''seqlets/scored_regions.bed''))
   \<and> (\<exists>fs'. modisco_report_all
          \<lparr>mr_patterns = (\<lambda>p fs. Inr []), load_contribsf = (\<lambda>d fs. None),
           run_step = (\<lambda>name fs. (None, fs))\<rparr> ''m/'' True False
          \<lparr>files = [''m/modisco-run.kwargs.json'' \<mapsto> Json (JObj [(''contrib_file'', JStr ''contrib.h5'')])],
           dirs = {''m'', ''m/seqlets''}, readonly = {}\<rparr> = (None, (fs', []))
        \<and> files fs' ''m/results.html'' = Some (Text [])
        \<and> files fs' ''m/seqlets/scored_regions.bed'' = Some (Text [])
        \<and> files fs' ''m/.modisco_report_all/modisco_plot.done'' = None)"
proof -
  let ?E = "\<lparr>mr_patterns = (\<lambda>p fs. Inr []), load_contribsf = (\<lambda>d fs. None),
           run_step = (\<lambda>name fs. (None, fs))\<rparr> :: report_env"
  let ?fs = "\<lparr>files = [''m/modisco-run.kwargs.json'' \<mapsto> Json (JObj [(''contrib_file'', JStr ''contrib.h5'')])],
       dirs = {''m'', ''m/seqlets''}, readonly = {}\<rparr>"
  let ?html = "path_str (path_div (Path ''m/'') ''results.html'')"
  let ?bed = "path_str (path_div (Path ''m/'') ''seqlets/scored_regions.bed'')"
  have kw: "read_contrib_file (Path ''m/'') ?fs = Inr (JStr ''contrib.h5'')"
    by (simp add: read_contrib_file_def paths_of_m)
  have pat: "mr_patterns ?E (path_str (Path ''m/'') @ ''/modisco.h5'') ?fs = Inr []" by simp
  have o1: "can_open ?fs ?html" by (simp add: paths_of_m can_open_def dirname_def)
  have o2: "can_open ?fs ?bed" by (simp add: paths_of_m can_open_def dirname_def)
  have hyp: "read_contrib_file (Path ''m/'') ?fs = Inr (JStr ''contrib.h5'')
      \<and> mr_patterns ?E (path_str (Path ''m/'') @ ''/modisco.h5'') ?fs = Inr []
      \<and> can_open ?fs ?html \<and> can_open ?fs ?bed"
    using kw pat o1 o2 by blast
  from no_patterns_touches_placeholders[of "''m/''" ?fs "JStr ''contrib.h5''" ?E True False,
      THEN mp, OF hyp]
  obtain fs' where
    r: "modisco_report_all ?E ''m/'' True False ?fs = (None, (fs', []))" and
    a: "files fs' ?html = Some (case files ?fs ?html of None \<Rightarrow> Text [] | Some c \<Rightarrow> c)" and
    b: "files fs' ?bed = Some (case files ?fs ?bed of None \<Rightarrow> Text [] | Some c \<Rightarrow> c)" and
    c: "\<forall>q. q \<noteq> ?html \<and> q \<noteq> ?bed \<longrightarrow> files fs' q = files ?fs q"
    by blast
  have a': "files fs' ''m/results.html'' = Some (Text [])" using a by (simp add: paths_of_m)
  have b': "files fs' ''m/seqlets/scored_regions.bed'' = Some (Text [])"
    using b by (simp add: paths_of_m)
  have "files fs' ''m/.modisco_report_all/modisco_plot.done''
          = files ?fs ''m/.modisco_report_all/modisco_plot.done''"
    using c[rule_format, of "''m/.modisco_report_all/modisco_plot.done''"]
    by (simp add: paths_of_m)
  then have c': "files fs' ''m/.modisco_report_all/modisco_plot.done'' = None" by simp
  show ?thesis using kw o1 o2 r a' b' c' by blast
qed

text \<open>
  Claim C10 as stated fails on two inputs. In a modisco directory \<open>m\<close> without a \<open>seqlets\<close>
  directory, \<open>results.html\<close> is created and the second \<open>open\<close> raises: the call ends with
  OSError and no \<open>seqlets/scored_regions.bed\<close>. In a directory where both files exist with
  content, the call returns and both keep their content, so neither is empty.
\<close>

theorem no_patterns_counterexample:
  "modisco_report_all
      \<lparr>mr_patterns = (\<lambda>p fs. Inr []), load_contribsf = (\<lambda>d fs. None),
       run_step = (\<lambda>name fs. (None, fs))\<rparr> ''m'' False False
      \<lparr>files = [''m/modisco-run.kwargs.json'' \<mapsto> Json (JObj [(''contrib_file'', JStr ''contrib.h5'')])],
       dirs = {''m''}, readonly = {}\<rparr>
     = (Some OSError,
        (\<lparr>files = [''m/modisco-run.kwargs.json'' \<mapsto> Json (JObj [(''contrib_file'', JStr ''contrib.h5'')]),
                   ''m/results.html'' \<mapsto> Text []],
          dirs = {''m''}, readonly = {}\<rparr>, []))
   \<and> modisco_report_all
      \<lparr>mr_patterns = (\<lambda>p fs. Inr []), load_contribsf = (\<lambda>d fs. None),
       run_step = (\<lambda>name fs. (None, fs))\<rparr> ''m'' False False
      \<lparr>files = [''m/modisco-run.kwargs.json'' \<mapsto> Json (JObj [(''contrib_file'', JStr ''contrib.h5'')]),
                ''m/results.html'' \<mapsto> Text ''<html>'',
                ''m/seqlets/scored_regions.bed'' \<mapsto> Text ''chr1''],
       dirs = {''m'', ''m/seqlets''}, readonly = {}\<rparr>
     = (None,
        (\<lparr>files = [''m/modisco-run.kwargs.json'' \<mapsto> Json (JObj [(''contrib_file'', JStr ''contrib.h5'')]),
                ''m/results.html'' \<mapsto> Text ''<html>'',
                ''m/seqlets/scored_regions.bed'' \<mapsto> Text ''chr1''],
          dirs = {''m'', ''m/seqlets''}, readonly = {}\<rparr>, []))"
  by (simp add: modisco_report_all_def Let_def read_contrib_file_def paths_of_m on_fs_def
      touch_def can_open_def dirname_def)

section \<open>Properties of running modisco\<close>

lemma block_append:
  "block (xs @ ys) s = (case block xs s of (Some e, s') \<Rightarrow> (Some e, s') | (None, s') \<Rightarrow> block ys s')"
  by (induction xs arbitrary: s) (auto split: prod.splits option.splits)

lemma subset_loop_Cons:
  "subset_loop tasks (w # ws) acc =
     (case entry_task w of
        None \<Rightarrow> Inl ValueError
      | Some task \<Rightarrow>
          if task = ''*'' then subset_loop tasks ws None
          else if task \<notin> set tasks then Inl ValueError
          else (case acc of None \<Rightarrow> Inl AttributeError
                | Some s \<Rightarrow> subset_loop tasks ws (Some (insert task s))))"
  by (simp add: entry_task_def split: list.splits)

text \<open>
  An entry that names an unknown task makes the loop raise, at that entry or at an
  earlier one: ValueError, or the AttributeError of \<open>subset_tasks.add\<close> on \<open>None\<close>.
\<close>

lemma subset_loop_unknown_raises:
  assumes "w \<in> set ws" and "entry_task w = Some task"
    and "task \<noteq> ''*''" and "task \<notin> set tasks"
  shows "subset_loop tasks ws acc = Inl ValueError \<or> subset_loop tasks ws acc = Inl AttributeError"
  using assms(1)
proof (induction ws arbitrary: acc)
  case Nil
  then show ?case by simp
next
  case (Cons u ws)
  show ?case
  proof (cases "u = w")
    case True
    then show ?thesis using assms(2,3,4) by (simp add: subset_loop_Cons del: subset_loop.simps)
  next
    case False
    with Cons.prems have "w \<in> set ws" by simp
    from Cons.IH[OF this] have ih: "\<And>acc'. subset_loop tasks ws acc' = Inl ValueError
                     \<or> subset_loop tasks ws acc' = Inl AttributeError" .
    show ?thesis
      unfolding subset_loop_Cons using ih by (auto split: option.splits)
  qed
qed

text \<open>
  The loop raises the AttributeError exactly when it reaches an entry that names a known
  task after an entry for \<open>*\<close>: every entry before it names \<open>*\<close> or a known task, and one of
  them names \<open>*\<close> (or \<open>subset_tasks\<close> is \<open>None\<close> from the start).
\<close>

lemma Cons_split:
  "(\<exists>pre u post. x # xs = pre @ u # post \<and> P pre u) =
   (P [] x \<or> (\<exists>pre u post. xs = pre @ u # post \<and> P (x # pre) u))"
proof
  assume "\<exists>pre u post. x # xs = pre @ u # post \<and> P pre u"
  then obtain pre u post where e: "x # xs = pre @ u # post" and p: "P pre u" by blast
  show "P [] x \<or> (\<exists>pre u post. xs = pre @ u # post \<and> P (x # pre) u)"
  proof (cases pre)
    case Nil
    then show ?thesis using e p by simp
  next
    case (Cons y pre')
    then have "y = x" "xs = pre' @ u # post" using e by simp_all
    then show ?thesis using p Cons by blast
  qed
next
  assume "P [] x \<or> (\<exists>pre u post. xs = pre @ u # post \<and> P (x # pre) u)"
  then show "\<exists>pre u post. x # xs = pre @ u # post \<and> P pre u"
  proof
    assume "P [] x"
    then have "x # xs = [] @ x # xs \<and> P [] x" by simp
    then show ?thesis by blast
  next
    assume "\<exists>pre u post. xs = pre @ u # post \<and> P (x # pre) u"
    then obtain pre u post where "xs = pre @ u # post" "P (x # pre) u" by blast
    then have "x # xs = (x # pre) @ u # post \<and> P (x # pre) u" by simp
    then show ?thesis by blast
  qed
qed

lemma subset_loop_AttributeError:
  "(subset_loop tasks ws acc = Inl AttributeError) =
   (\<exists>pre u post. ws = pre @ u # post
      \<and> (list_all (passes tasks) pre \<and> passes tasks u \<and> entry_task u \<noteq> Some ''*''
         \<and> (acc = None \<or> Some ''*'' \<in> set (map entry_task pre))))"
proof (induction ws arbitrary: acc)
  case Nil
  then show ?case by simp
next
  case (Cons w ws)
  let ?P = "\<lambda>acc pre u. list_all (passes tasks) pre \<and> passes tasks u \<and> entry_task u \<noteq> Some ''*''
         \<and> (acc = None \<or> Some ''*'' \<in> set (map entry_task pre))"
  have split: "\<And>acc. (\<exists>pre u post. w # ws = pre @ u # post \<and> ?P acc pre u) =
     (?P acc [] w \<or> (\<exists>pre u post. ws = pre @ u # post \<and> ?P acc (w # pre) u))"
    by (rule Cons_split)
  show ?case
  proof (cases "entry_task w")
    case None
    then have "\<not> passes tasks w" by (simp add: passes_def)
    then have "\<not> (\<exists>pre u post. w # ws = pre @ u # post \<and> ?P acc pre u)"
      unfolding split by simp
    moreover have "subset_loop tasks (w # ws) acc \<noteq> Inl AttributeError"
      using None by (simp add: subset_loop_Cons del: subset_loop.simps)
    ultimately show ?thesis by blast
  next
    case (Some t)
    show ?thesis
    proof (cases "t = ''*''")
      case True
      have pw: "passes tasks w" using Some True by (simp add: passes_def)
      have l: "subset_loop tasks (w # ws) acc = subset_loop tasks ws None"
        using Some True by (simp add: subset_loop_Cons del: subset_loop.simps)
      have "(\<exists>pre u post. w # ws = pre @ u # post \<and> ?P acc pre u) =
            (\<exists>pre u post. ws = pre @ u # post \<and> ?P None pre u)"
        unfolding split using Some True pw by simp
      then show ?thesis unfolding l Cons.IH[of None] by simp
    next
      case False
      show ?thesis
      proof (cases "t \<in> set tasks")
        case False
        then have "\<not> passes tasks w" using Some \<open>t \<noteq> ''*''\<close> by (simp add: passes_def)
        then have "\<not> (\<exists>pre u post. w # ws = pre @ u # post \<and> ?P acc pre u)"
          unfolding split by simp
        moreover have "subset_loop tasks (w # ws) acc \<noteq> Inl AttributeError"
          using Some False \<open>t \<noteq> ''*''\<close> by (simp add: subset_loop_Cons del: subset_loop.simps)
        ultimately show ?thesis by blast
      next
        case True
        have pw: "passes tasks w" using Some True by (simp add: passes_def)
        have ns: "entry_task w \<noteq> Some ''*''" using Some \<open>t \<noteq> ''*''\<close> by simp
        show ?thesis
        proof (cases acc)
          case None
          have "subset_loop tasks (w # ws) acc = Inl AttributeError"
            using Some True \<open>t \<noteq> ''*''\<close> None by (simp add: subset_loop_Cons del: subset_loop.simps)
          moreover have "\<exists>pre u post. w # ws = pre @ u # post \<and> ?P acc pre u"
            unfolding split using pw ns None by simp
          ultimately show ?thesis by blast
        next
          case (Some s)
          have l: "subset_loop tasks (w # ws) acc = subset_loop tasks ws (Some (insert t s))"
            using \<open>entry_task w = Some t\<close> True \<open>t \<noteq> ''*''\<close> Some by (simp add: subset_loop_Cons del: subset_loop.simps)
          have "(\<exists>pre u post. w # ws = pre @ u # post \<and> ?P acc pre u) =
                (\<exists>pre u post. ws = pre @ u # post \<and> ?P (Some (insert t s)) pre u)"
            unfolding split using pw ns Some by simp
          then show ?thesis unfolding l Cons.IH[of "Some (insert t s)"] by simp
        qed
      qed
    qed
  qed
qed

text \<open>
  So an entry that names an unknown task makes the loop raise ValueError unless a known
  task is reached after a \<open>*\<close>.
\<close>

lemma subset_loop_unknown:
  assumes "w \<in> set ws" and "entry_task w = Some task"
    and "task \<noteq> ''*''" and "task \<notin> set tasks"
    and "\<not> (\<exists>pre u post. ws = pre @ u # post
            \<and> (list_all (passes tasks) pre \<and> passes tasks u \<and> entry_task u \<noteq> Some ''*''
               \<and> Some ''*'' \<in> set (map entry_task pre)))"
  shows "subset_loop tasks ws (Some acc) = Inl ValueError"
proof -
  have "subset_loop tasks ws (Some acc) \<noteq> Inl AttributeError"
    unfolding subset_loop_AttributeError using assms(5) by simp
  with subset_loop_unknown_raises[OF assms(1-4), of "Some acc"] show ?thesis by blast
qed

text \<open>
  The case left out: asked for every task and then for the known task Oct4, the loop
  raises the AttributeError, not a ValueError.
\<close>

lemma subset_loop_known_after_star:
  "subset_loop [''Oct4'', ''Sox2''] (split_on (CHR '','') ''*/profile/wn,Oct4/profile/wn'') (Some {})
     = Inl AttributeError"
  by simp

lemma setup_devices_run_rest: "setup_devices (env\<lparr>run_rest := r\<rparr>) a = setup_devices env a"
  by (rule ext) (simp add: setup_devices_def split: option.splits)

lemma abs_opt_run_rest: "abs_opt (env\<lparr>run_rest := r\<rparr>) x = abs_opt env x"
  by (simp add: abs_opt_def split: option.splits)

lemma output_path_run_rest: "output_path (env\<lparr>run_rest := r\<rparr>) a = output_path env a"
  by (simp add: output_path_def)

lemma output_filter_npy_run_rest:
  "output_filter_npy (env\<lparr>run_rest := r\<rparr>) a = output_filter_npy env a"
  by (simp add: output_filter_npy_def)

lemma copy_config_run_rest: "copy_config (env\<lparr>run_rest := r\<rparr>) a = copy_config env a"
  by (simp add: copy_config_def abs_opt_run_rest split: option.splits)

lemma kwargs_json_run_rest: "kwargs_json (env\<lparr>run_rest := r\<rparr>) a = kwargs_json env a"
  by (simp add: kwargs_json_def abs_opt_run_rest output_filter_npy_run_rest split: option.splits)

lemma run_setup_run_rest: "run_setup (env\<lparr>run_rest := r\<rparr>) a = run_setup env a"
  by (simp add: run_setup_def setup_devices_run_rest abs_opt_run_rest output_path_run_rest
      output_filter_npy_run_rest copy_config_run_rest kwargs_json_run_rest)

lemma run_setup_writes_kwargs:
  assumes "run_setup env a st = (None, st1)"
  shows "\<exists>s0. block [add_file_logging env (output_dir a), setup_devices env a, assert_slash a,
                    remove_exists env (output_path env a) (overwrite a),
                    remove_exists env (output_filter_npy env a) (overwrite a),
                    remove_exists env (kwargs_json_file a) (overwrite a),
                    copy_config env a] st = (None, s0)
           \<and> can_open (pfs s0) (kwargs_json_file a)
           \<and> block [gin_parse env (premade a) (abs_opt env (config a)) (num_workers a)
                      (split_on (CHR '';'') (override a)),
                    log_gin_config env (output_dir a)]
                (s0\<lparr>pfs := (pfs s0)\<lparr>files := (files (pfs s0))
                        (kwargs_json_file a \<mapsto> Json (kwargs_json env a))\<rparr>\<rparr>) = (None, st1)"
proof -
  let ?pre = "[add_file_logging env (output_dir a), setup_devices env a, assert_slash a,
               remove_exists env (output_path env a) (overwrite a),
               remove_exists env (output_filter_npy env a) (overwrite a),
               remove_exists env (kwargs_json_file a) (overwrite a),
               copy_config env a]"
  let ?w = "in_fs (write_json (kwargs_json env a) (kwargs_json_file a))"
  let ?post = "[gin_parse env (premade a) (abs_opt env (config a)) (num_workers a)
                  (split_on (CHR '';'') (override a)),
                log_gin_config env (output_dir a)]"
  have split: "run_setup env a = block (?pre @ ?w # ?post)" by (simp add: run_setup_def)
  obtain r0 s0 where p: "block ?pre st = (r0, s0)" by (cases "block ?pre st")
  from assms have "block (?pre @ ?w # ?post) st = (None, st1)" unfolding split .
  then have r0: "r0 = None" and rest: "block (?w # ?post) s0 = (None, st1)"
    unfolding block_append[of ?pre] using p by (cases r0; simp)+
  obtain r1 s1 where w: "?w s0 = (r1, s1)" by (cases "?w s0")
  from rest w have r1: "r1 = None" and post: "block ?post s1 = (None, st1)"
    by (cases r1; simp)+
  from w r1 have co: "can_open (pfs s0) (kwargs_json_file a)"
    and s1: "s1 = s0\<lparr>pfs := (pfs s0)\<lparr>files := (files (pfs s0))
                        (kwargs_json_file a \<mapsto> Json (kwargs_json env a))\<rparr>\<rparr>"
    by (auto simp: in_fs_def write_json_def split: if_splits)
  show ?thesis using p r0 co post s1 by blast
qed

text \<open>
  Claim C8, as amended. Let the statements before the contribution file is loaded succeed
  and leave the state \<open>st1\<close>, and let an entry of \<open>contrib_wildcard\<close> name a task that is
  neither \<open>*\<close> nor among the tasks of the contribution file. Let the loop over the entries
  not reach \<open>subset_tasks.add\<close> on \<open>None\<close>: there is no entry naming a known task that
  comes after an entry for \<open>*\<close> with only entries for \<open>*\<close> or known tasks before it. Then
  \<open>bpnet_modisco_run\<close> raises ValueError and ends in \<open>st1\<close>: the rest of the function (the
  ranges, the subset file, modisco itself) does not run, whatever it would do. The
  effects of the first statements stay: on the way to \<open>st1\<close>, after the logging, the
  device setup, the removal of old outputs and the copy of the config,
  \<open>modisco-run.kwargs.json\<close> was written, and the gin configuration was parsed and logged
  after it.
\<close>

theorem unknown_task_raises_after_setup:
  "run_setup env a st = (None, st1)
   \<and> get_tasks env (contrib_file a) st1 = Inr tasks
   \<and> w \<in> set (split_on (CHR '','') (contrib_wildcard a))
   \<and> split_on (CHR ''/'') w = [task, h, s]
   \<and> task \<noteq> ''*'' \<and> task \<notin> set tasks
   \<and> \<not> (\<exists>pre u post. split_on (CHR '','') (contrib_wildcard a) = pre @ u # post
            \<and> (list_all (passes tasks) pre \<and> passes tasks u \<and> entry_task u \<noteq> Some ''*''
               \<and> Some ''*'' \<in> set (map entry_task pre))) \<longrightarrow>
   bpnet_modisco_run env a st = (Some ValueError, st1)
   \<and> bpnet_modisco_run (env\<lparr>run_rest := r\<rparr>) a st = (Some ValueError, st1)
   \<and> (\<exists>s0. block [add_file_logging env (output_dir a), setup_devices env a, assert_slash a,
                    remove_exists env (output_path env a) (overwrite a),
                    remove_exists env (output_filter_npy env a) (overwrite a),
                    remove_exists env (kwargs_json_file a) (overwrite a),
                    copy_config env a] st = (None, s0)
           \<and> can_open (pfs s0) (kwargs_json_file a)
           \<and> block [gin_parse env (premade a) (abs_opt env (config a)) (num_workers a)
                      (split_on (CHR '';'') (override a)),
                    log_gin_config env (output_dir a)]
                (s0\<lparr>pfs := (pfs s0)\<lparr>files := (files (pfs s0))
                        (kwargs_json_file a \<mapsto> Json (kwargs_json env a))\<rparr>\<rparr>) = (None, st1))"
proof (intro impI)
  assume hyp: "run_setup env a st = (None, st1)
   \<and> get_tasks env (contrib_file a) st1 = Inr tasks
   \<and> w \<in> set (split_on (CHR '','') (contrib_wildcard a))
   \<and> split_on (CHR ''/'') w = [task, h, s]
   \<and> task \<noteq> ''*'' \<and> task \<notin> set tasks
   \<and> \<not> (\<exists>pre u post. split_on (CHR '','') (contrib_wildcard a) = pre @ u # post
            \<and> (list_all (passes tasks) pre \<and> passes tasks u \<and> entry_task u \<noteq> Some ''*''
               \<and> Some ''*'' \<in> set (map entry_task pre)))"
  then have su: "run_setup env a st = (None, st1)"
    and tasks: "get_tasks env (contrib_file a) st1 = Inr tasks"
    and win: "w \<in> set (split_on (CHR '','') (contrib_wildcard a))"
    and sp: "split_on (CHR ''/'') w = [task, h, s]"
    and ns: "task \<noteq> ''*''" and nin: "task \<notin> set tasks"
    and noslip: "\<not> (\<exists>pre u post. split_on (CHR '','') (contrib_wildcard a) = pre @ u # post
            \<and> (list_all (passes tasks) pre \<and> passes tasks u \<and> entry_task u \<noteq> Some ''*''
               \<and> Some ''*'' \<in> set (map entry_task pre)))"
    by simp_all
  have et: "entry_task w = Some task" using sp by (simp add: entry_task_def)
  have loop: "subset_loop tasks (split_on (CHR '','') (contrib_wildcard a)) (Some {}) = Inl ValueError"
    by (rule subset_loop_unknown[OF win et ns nin noslip])
  have r1: "bpnet_modisco_run env a st = (Some ValueError, st1)"
    using su tasks loop by (simp add: bpnet_modisco_run_def)
  have r2: "bpnet_modisco_run (env\<lparr>run_rest := r\<rparr>) a st = (Some ValueError, st1)"
    using su tasks loop by (simp add: bpnet_modisco_run_def run_setup_run_rest)
  from r1 r2 run_setup_writes_kwargs[OF su]
  show "bpnet_modisco_run env a st = (Some ValueError, st1)
   \<and> bpnet_modisco_run (env\<lparr>run_rest := r\<rparr>) a st = (Some ValueError, st1)
   \<and> (\<exists>s0. block [add_file_logging env (output_dir a), setup_devices env a, assert_slash a,
                    remove_exists env (output_path env a) (overwrite a),
                    remove_exists env (output_filter_npy env a) (overwrite a),
                    remove_exists env (kwargs_json_file a) (overwrite a),
                    copy_config env a] st = (None, s0)
           \<and> can_open (pfs s0) (kwargs_json_file a)
           \<and> block [gin_parse env (premade a) (abs_opt env (config a)) (num_workers a)
                      (split_on (CHR '';'') (override a)),
                    log_gin_config env (output_dir a)]
                (s0\<lparr>pfs := (pfs s0)\<lparr>files := (files (pfs s0))
                        (kwargs_json_file a \<mapsto> Json (kwargs_json env a))\<rparr>\<rparr>) = (None, st1))"
    by blast
qed

lemma example_setup:
  "run_setup
     \<lparr>add_file_logging = (\<lambda>d st. (None, st)), create_tf_session = (\<lambda>g m st. (None, st)),
      abspath = (\<lambda>p. ''/work/'' @ p),
      remove_exists = (\<lambda>p ow st. case files (pfs st) p of
          None \<Rightarrow> (None, st)
        | Some c \<Rightarrow> if ow then (None, st\<lparr>pfs := (pfs st)\<lparr>files := (files (pfs st))(p := None)\<rparr>\<rparr>)
                    else (Some ValueError, st)),
      gin_parse = (\<lambda>pm c n ov st. (None, st)), log_gin_config = (\<lambda>d st. (None, st)),
      get_tasks = (\<lambda>p st. Inr [''Oct4'', ''Sox2'']),
      run_rest = (\<lambda>a tasks sub st. (None, st))\<rparr>
     \<lparr>contrib_file = ''contrib.h5'', output_dir = ''out'', null_contrib_file = None,
      premade = ''modisco-50k'', config = None, override = [],
      contrib_wildcard = ''Nanog/profile/wn'', only_task_regions = False, filter_npy = None,
      exclude_chr = [], num_workers = 10, gpu = None, memfrac_gpu = 45 / 100,
      overwrite = False\<rparr>
     \<lparr>pfs = \<lparr>files = Map.empty, dirs = {''out''}, readonly = {}\<rparr>, environ = Map.empty\<rparr>
   = (None,
      \<lparr>pfs = \<lparr>files = [''out/modisco-run.kwargs.json'' \<mapsto> Json (JObj
                 [(''contrib_file'', JStr ''/work/contrib.h5''),
                  (''output_dir'', JStr ''out''),
                  (''null_contrib_file'', JNull),
                  (''config'', JStr ''None''),
                  (''override'', JStr []),
                  (''contrib_wildcard'', JStr ''Nanog/profile/wn''),
                  (''only_task_regions'', JBool False),
                  (''filter_npy'', JStr ''None''),
                  (''exclude_chr'', JStr []),
                  (''num_workers'', JNum 10),
                  (''overwrite'', JBool False),
                  (''output_filter_npy'', JStr ''/work/out/modisco-run.subset-contrib-file.npy''),
                  (''gpu'', JNull),
                  (''memfrac_gpu'', JNum (45 / 100))])],
              dirs = {''out''}, readonly = {}\<rparr>,
       environ = [''CUDA_VISIBLE_DEVICES'' \<mapsto> [], ''MKL_THREADING_LAYER'' \<mapsto> ''GNU'']\<rparr>)"
  by (simp add: run_setup_def setup_devices_def assert_slash_def output_path_def
      output_filter_npy_def kwargs_json_file_def copy_config_def abs_opt_def in_fs_def
      write_json_def can_open_def dirname_def path_join_def kwargs_json_def str_opt_def)

lemma example_setup_star:
  "fst (run_setup
     \<lparr>add_file_logging = (\<lambda>d st. (None, st)), create_tf_session = (\<lambda>g m st. (None, st)),
      abspath = (\<lambda>p. ''/work/'' @ p),
      remove_exists = (\<lambda>p ow st. case files (pfs st) p of
          None \<Rightarrow> (None, st)
        | Some c \<Rightarrow> if ow then (None, st\<lparr>pfs := (pfs st)\<lparr>files := (files (pfs st))(p := None)\<rparr>\<rparr>)
                    else (Some ValueError, st)),
      gin_parse = (\<lambda>pm c n ov st. (None, st)), log_gin_config = (\<lambda>d st. (None, st)),
      get_tasks = (\<lambda>p st. Inr [''Oct4'', ''Sox2'']),
      run_rest = (\<lambda>a tasks sub st. (None, st))\<rparr>
     \<lparr>contrib_file = ''contrib.h5'', output_dir = ''out'', null_contrib_file = None,
      premade = ''modisco-50k'', config = None, override = [],
      contrib_wildcard = ''*/profile/wn,Nanog/profile/wn'', only_task_regions = False,
      filter_npy = None, exclude_chr = [], num_workers = 10, gpu = None,
      memfrac_gpu = 45 / 100, overwrite = False\<rparr>
     \<lparr>pfs = \<lparr>files = Map.empty, dirs = {''out''}, readonly = {}\<rparr>, environ = Map.empty\<rparr>) = None"
  by (simp add: run_setup_def setup_devices_def assert_slash_def output_path_def
      output_filter_npy_def kwargs_json_file_def copy_config_def abs_opt_def in_fs_def
      write_json_def can_open_def dirname_def path_join_def kwargs_json_def str_opt_def)

text \<open>
  A run in the directory \<open>out\<close> on a contribution file with the tasks Oct4 and Sox2, asked
  for every task and then for the task Nanog, with a remainder that would fail if it ran.
\<close>

theorem unknown_task_raises_after_setup_witness:
  "get_tasks
     \<lparr>add_file_logging = (\<lambda>d st. (None, st)), create_tf_session = (\<lambda>g m st. (None, st)),
      abspath = (\<lambda>p. ''/work/'' @ p),
      remove_exists = (\<lambda>p ow st. case files (pfs st) p of
          None \<Rightarrow> (None, st)
        | Some c \<Rightarrow> if ow then (None, st\<lparr>pfs := (pfs st)\<lparr>files := (files (pfs st))(p := None)\<rparr>\<rparr>)
                    else (Some ValueError, st)),
      gin_parse = (\<lambda>pm c n ov st. (None, st)), log_gin_config = (\<lambda>d st. (None, st)),
      get_tasks = (\<lambda>p st. Inr [''Oct4'', ''Sox2'']),
      run_rest = (\<lambda>a tasks sub st. (None, st))\<rparr> ''contrib.h5''
       \<lparr>pfs = \<lparr>files = Map.empty, dirs = {''out''}, readonly = {}\<rparr>, environ = Map.empty\<rparr>
     = Inr [''Oct4'', ''Sox2'']
   \<and> split_on (CHR '','') ''*/profile/wn,Nanog/profile/wn''
       = [''*/profile/wn'', ''Nanog/profile/wn'']
   \<and> split_on (CHR ''/'') ''Nanog/profile/wn'' = [''Nanog'', ''profile'', ''wn'']
   \<and> ''Nanog'' \<notin> set [''Oct4'', ''Sox2'']
   \<and> subset_loop [''Oct4'', ''Sox2''] [''*/profile/wn'', ''Nanog/profile/wn''] (Some {})
       \<noteq> Inl AttributeError
   \<and> fst (bpnet_modisco_run
     (\<lparr>add_file_logging = (\<lambda>d st. (None, st)), create_tf_session = (\<lambda>g m st. (None, st)),
      abspath = (\<lambda>p. ''/work/'' @ p),
      remove_exists = (\<lambda>p ow st. case files (pfs st) p of
          None \<Rightarrow> (None, st)
        | Some c \<Rightarrow> if ow then (None, st\<lparr>pfs := (pfs st)\<lparr>files := (files (pfs st))(p := None)\<rparr>\<rparr>)
                    else (Some ValueError, st)),
      gin_parse = (\<lambda>pm c n ov st. (None, st)), log_gin_config = (\<lambda>d st. (None, st)),
      get_tasks = (\<lambda>p st. Inr [''Oct4'', ''Sox2'']),
      run_rest = (\<lambda>a tasks sub st. (None, st))\<rparr>\<lparr>run_rest := (\<lambda>a tasks sub st. (Some OSError, st))\<rparr>)
     \<lparr>contrib_file = ''contrib.h5'', output_dir = ''out'', null_contrib_file = None,
      premade = ''modisco-50k'', config = None, override = [],
      contrib_wildcard = ''*/profile/wn,Nanog/profile/wn'', only_task_regions = False,
      filter_npy = None, exclude_chr = [], num_workers = 10, gpu = None,
      memfrac_gpu = 45 / 100, overwrite = False\<rparr>
     \<lparr>pfs = \<lparr>files = Map.empty, dirs = {''out''}, readonly = {}\<rparr>, environ = Map.empty\<rparr>)
     = Some ValueError"
proof -
  let ?E = "\<lparr>add_file_logging = (\<lambda>d st. (None, st)), create_tf_session = (\<lambda>g m st. (None, st)),
      abspath = (\<lambda>p. ''/work/'' @ p),
      remove_exists = (\<lambda>p ow st. case files (pfs st) p of
          None \<Rightarrow> (None, st)
        | Some c \<Rightarrow> if ow then (None, st\<lparr>pfs := (pfs st)\<lparr>files := (files (pfs st))(p := None)\<rparr>\<rparr>)
                    else (Some ValueError, st)),
      gin_parse = (\<lambda>pm c n ov st. (None, st)), log_gin_config = (\<lambda>d st. (None, st)),
      get_tasks = (\<lambda>p st. Inr [''Oct4'', ''Sox2'']),
      run_rest = (\<lambda>a tasks sub st. (None, st))\<rparr> :: run_env"
  let ?A = "\<lparr>contrib_file = ''contrib.h5'', output_dir = ''out'', null_contrib_file = None,
      premade = ''modisco-50k'', config = None, override = [],
      contrib_wildcard = ''*/profile/wn,Nanog/profile/wn'', only_task_regions = False,
      filter_npy = None, exclude_chr = [], num_workers = 10, gpu = None,
      memfrac_gpu = 45 / 100, overwrite = False\<rparr>"
  let ?S = "\<lparr>pfs = \<lparr>files = Map.empty, dirs = {''out''}, readonly = {}\<rparr>, environ = Map.empty\<rparr>"
  obtain S1 where su: "run_setup ?E ?A ?S = (None, S1)"
    using example_setup_star by (cases "run_setup ?E ?A ?S") simp
  have tasks: "get_tasks ?E (contrib_file ?A) S1 = Inr [''Oct4'', ''Sox2'']" by simp
  have cw: "split_on (CHR '','') (contrib_wildcard ?A) = [''*/profile/wn'', ''Nanog/profile/wn'']"
    by simp
  have sp: "split_on (CHR ''/'') ''Nanog/profile/wn'' = [''Nanog'', ''profile'', ''wn'']" by simp
  have win: "''Nanog/profile/wn'' \<in> set (split_on (CHR '','') (contrib_wildcard ?A))"
    unfolding cw by simp
  have ns: "''Nanog'' \<noteq> ''*''" and nin: "''Nanog'' \<notin> set [''Oct4'', ''Sox2'']" by simp_all
  have ev: "subset_loop [''Oct4'', ''Sox2''] [''*/profile/wn'', ''Nanog/profile/wn''] (Some {})
              \<noteq> Inl AttributeError" by simp
  have noslip: "\<not> (\<exists>pre u post. split_on (CHR '','') (contrib_wildcard ?A) = pre @ u # post
            \<and> (list_all (passes [''Oct4'', ''Sox2'']) pre \<and> passes [''Oct4'', ''Sox2''] u
               \<and> entry_task u \<noteq> Some ''*'' \<and> Some ''*'' \<in> set (map entry_task pre)))"
    using ev subset_loop_AttributeError[of "[''Oct4'', ''Sox2'']"
        "[''*/profile/wn'', ''Nanog/profile/wn'']" "Some {}"]
    unfolding cw by simp
  from unknown_task_raises_after_setup[of ?E ?A ?S S1 "[''Oct4'', ''Sox2'']" "''Nanog/profile/wn''"
      "''Nanog''" "''profile''" "''wn''" "\<lambda>a tasks sub st. (Some OSError, st)"]
    su tasks win sp ns nin noslip
  have "bpnet_modisco_run (?E\<lparr>run_rest := (\<lambda>a tasks sub st. (Some OSError, st))\<rparr>) ?A ?S
          = (Some ValueError, S1)"
    by blast
  then have "fst (bpnet_modisco_run (?E\<lparr>run_rest := (\<lambda>a tasks sub st. (Some OSError, st))\<rparr>) ?A ?S)
          = Some ValueError" by simp
  moreover have "get_tasks ?E ''contrib.h5'' ?S = Inr [''Oct4'', ''Sox2'']" by simp
  moreover have "split_on (CHR '','') ''*/profile/wn,Nanog/profile/wn''
       = [''*/profile/wn'', ''Nanog/profile/wn'']" by simp
  ultimately show ?thesis using sp nin ev by blast
qed

text \<open>
  Claim C8 as stated fails on this run: asked for the unknown task Nanog in an output
  directory without files, \<open>bpnet_modisco_run\<close> raises ValueError only after it has set the
  two environment variables and written \<open>out/modisco-run.kwargs.json\<close>, which stay. The
  helpers of the run have no effect here, so the file is the work of \<open>write_json\<close> alone.
\<close>

theorem unknown_task_counterexample:
  "bpnet_modisco_run
     \<lparr>add_file_logging = (\<lambda>d st. (None, st)), create_tf_session = (\<lambda>g m st. (None, st)),
      abspath = (\<lambda>p. ''/work/'' @ p),
      remove_exists = (\<lambda>p ow st. case files (pfs st) p of
          None \<Rightarrow> (None, st)
        | Some c \<Rightarrow> if ow then (None, st\<lparr>pfs := (pfs st)\<lparr>files := (files (pfs st))(p := None)\<rparr>\<rparr>)
                    else (Some ValueError, st)),
      gin_parse = (\<lambda>pm c n ov st. (None, st)), log_gin_config = (\<lambda>d st. (None, st)),
      get_tasks = (\<lambda>p st. Inr [''Oct4'', ''Sox2'']),
      run_rest = (\<lambda>a tasks sub st. (None, st))\<rparr>
     \<lparr>contrib_file = ''contrib.h5'', output_dir = ''out'', null_contrib_file = None,
      premade = ''modisco-50k'', config = None, override = [],
      contrib_wildcard = ''Nanog/profile/wn'', only_task_regions = False, filter_npy = None,
      exclude_chr = [], num_workers = 10, gpu = None, memfrac_gpu = 45 / 100,
      overwrite = False\<rparr>
     \<lparr>pfs = \<lparr>files = Map.empty, dirs = {''out''}, readonly = {}\<rparr>, environ = Map.empty\<rparr>
   = (Some ValueError,
      \<lparr>pfs = \<lparr>files = [''out/modisco-run.kwargs.json'' \<mapsto> Json (JObj
                 [(''contrib_file'', JStr ''/work/contrib.h5''),
                  (''output_dir'', JStr ''out''),
                  (''null_contrib_file'', JNull),
                  (''config'', JStr ''None''),
                  (''override'', JStr []),
                  (''contrib_wildcard'', JStr ''Nanog/profile/wn''),
                  (''only_task_regions'', JBool False),
                  (''filter_npy'', JStr ''None''),
                  (''exclude_chr'', JStr []),
                  (''num_workers'', JNum 10),
                  (''overwrite'', JBool False),
                  (''output_filter_npy'', JStr ''/work/out/modisco-run.subset-contrib-file.npy''),
                  (''gpu'', JNull),
                  (''memfrac_gpu'', JNum (45 / 100))])],
              dirs = {''out''}, readonly = {}\<rparr>,
       environ = [''CUDA_VISIBLE_DEVICES'' \<mapsto> [], ''MKL_THREADING_LAYER'' \<mapsto> ''GNU'']\<rparr>)"
  unfolding bpnet_modisco_run_def example_setup by simp

end
